theory Spec2Isabelle
  imports Complex_Main
begin

section \<open>OpenSteer obstacles: the model\<close>

text \<open>
  A shallow embedding of \<^verbatim>\<open>src/opensteer/src/Obstacle.cpp\<close>.

  \<^item> The C++ type \<^verbatim>\<open>float\<close> is modelled by \<open>real\<close>: rounding, overflow, infinities
    and NaN are outside the model, and every comparison is the exact one.
  \<^item> An output parameter \<^verbatim>\<open>PathIntersection&\<close> is an argument (the record the caller
    passes in) and a result (the record as the method leaves it), so that an early
    return keeps the fields it has not written.
  \<^item> The header \<^verbatim>\<open>OpenSteer/Obstacle.h\<close> and the headers it includes (Vec3, LocalSpace,
    AbstractVehicle, Utilities) are not part of the sources at hand. What the methods
    below use from them is modelled from the specification, each under a comment that
    says so.
\<close>

subsection \<open>Vec3\<close>

text \<open>
  Modelled from the spec: the class \<^verbatim>\<open>Vec3\<close> (section 3, "Vector3: 3D float vector")
  with its three components.
\<close>

datatype Vec3 = Vec3 (vx: real) (vy: real) (vz: real)

text \<open>
  Modelled from the spec: \<^verbatim>\<open>operator+\<close>, \<^verbatim>\<open>operator-\<close> (binary and unary) and the
  constant \<^verbatim>\<open>Vec3::zero\<close>, componentwise.
\<close>

instantiation Vec3 :: "{zero, plus, minus, uminus}"
begin

definition zero_Vec3 :: Vec3 where
  "zero_Vec3 = Vec3 0 0 0"

definition plus_Vec3 :: "Vec3 \<Rightarrow> Vec3 \<Rightarrow> Vec3" where
  "plus_Vec3 a b = Vec3 (vx a + vx b) (vy a + vy b) (vz a + vz b)"

definition minus_Vec3 :: "Vec3 \<Rightarrow> Vec3 \<Rightarrow> Vec3" where
  "minus_Vec3 a b = Vec3 (vx a - vx b) (vy a - vy b) (vz a - vz b)"

definition uminus_Vec3 :: "Vec3 \<Rightarrow> Vec3" where
  "uminus_Vec3 a = Vec3 (- vx a) (- vy a) (- vz a)"

instance ..

end

text \<open>Modelled from the spec: the constant \<^verbatim>\<open>Vec3::forward\<close>, the local +Z axis.\<close>

definition Vec3_forward :: Vec3 where
  "Vec3_forward = Vec3 0 0 1"

text \<open>Modelled from the spec: \<^verbatim>\<open>Vec3::operator* (float)\<close>, the scalar multiple.\<close>

definition times_Vec3 :: "Vec3 \<Rightarrow> real \<Rightarrow> Vec3" where
  "times_Vec3 a s = Vec3 (vx a * s) (vy a * s) (vz a * s)"

text \<open>Modelled from the spec: \<^verbatim>\<open>Vec3::operator/ (float)\<close>, the division by a scalar.\<close>

definition divide_Vec3 :: "Vec3 \<Rightarrow> real \<Rightarrow> Vec3" where
  "divide_Vec3 a s = Vec3 (vx a / s) (vy a / s) (vz a / s)"

text \<open>Modelled from the spec: \<^verbatim>\<open>Vec3::dot\<close>, the dot product.\<close>

definition dot :: "Vec3 \<Rightarrow> Vec3 \<Rightarrow> real" where
  "dot a b = vx a * vx b + vy a * vy b + vz a * vz b"

text \<open>Modelled from the spec: the helpers \<^verbatim>\<open>square\<close> and \<^verbatim>\<open>sqrtXXX\<close> ("a square-root function").\<close>

definition square :: "real \<Rightarrow> real" where
  "square a = a * a"

definition sqrtXXX :: "real \<Rightarrow> real" where
  "sqrtXXX a = sqrt a"

text \<open>Modelled from the spec: \<^verbatim>\<open>Vec3::length\<close>, the Euclidean length.\<close>

definition length_Vec3 :: "Vec3 \<Rightarrow> real" where
  "length_Vec3 a = sqrtXXX (dot a a)"

text \<open>
  Modelled from the spec: \<^verbatim>\<open>Vec3::normalize\<close>, the vector divided by its length. The zero
  vector has no direction; it is returned as it is. (Dividing it by its length gives
  the same in \<open>real\<close>, where \<open>0 / 0 = 0\<close>.)
\<close>

definition normalize_Vec3 :: "Vec3 \<Rightarrow> Vec3" where
  "normalize_Vec3 a =
     (let len = length_Vec3 a in if len > 0 then divide_Vec3 a len else a)"

text \<open>
  Modelled from the spec: \<^verbatim>\<open>Vec3::parallelComponent\<close> and \<^verbatim>\<open>Vec3::perpendicularComponent\<close>,
  the decomposition of a vector along and across a basis vector that the caller gives
  as a unit vector ("project onto the plane perpendicular to the vehicle's forward
  direction: discard the forward-aligned component").
\<close>

definition parallelComponent :: "Vec3 \<Rightarrow> Vec3 \<Rightarrow> Vec3" where
  "parallelComponent a unitBasis = times_Vec3 unitBasis (dot a unitBasis)"

definition perpendicularComponent :: "Vec3 \<Rightarrow> Vec3 \<Rightarrow> Vec3" where
  "perpendicularComponent a unitBasis = a - parallelComponent a unitBasis"

subsection \<open>LocalSpace and the vehicle\<close>

text \<open>
  Modelled from the spec: a local orientation frame (side, up and forward axes, which
  are the local X, Y and Z) and a position, with the transforms between world space and
  the frame. A rectangle and a box carry one, and so does the vehicle.
\<close>

record LocalSpace =
  side :: Vec3
  up :: Vec3
  forward :: Vec3
  position :: Vec3

definition localizeDirection :: "'a LocalSpace_scheme \<Rightarrow> Vec3 \<Rightarrow> Vec3" where
  "localizeDirection ls globalDirection =
     Vec3 (dot globalDirection (side ls)) (dot globalDirection (up ls))
          (dot globalDirection (forward ls))"

definition localizePosition :: "'a LocalSpace_scheme \<Rightarrow> Vec3 \<Rightarrow> Vec3" where
  "localizePosition ls globalPosition =
     localizeDirection ls (globalPosition - position ls)"

definition globalizeDirection :: "'a LocalSpace_scheme \<Rightarrow> Vec3 \<Rightarrow> Vec3" where
  "globalizeDirection ls localDirection =
     times_Vec3 (side ls) (vx localDirection) + times_Vec3 (up ls) (vy localDirection)
       + times_Vec3 (forward ls) (vz localDirection)"

definition globalizePosition :: "'a LocalSpace_scheme \<Rightarrow> Vec3 \<Rightarrow> Vec3" where
  "globalizePosition ls localPosition =
     position ls + globalizeDirection ls localPosition"

text \<open>
  Modelled from the spec: what the methods read from an \<^verbatim>\<open>AbstractVehicle\<close>: its frame
  and position, its speed, its radius and its maximum steering force.
\<close>

record AbstractVehicle = LocalSpace +
  speed :: real
  radius :: real
  maxForce :: real

subsection \<open>Obstacles and path intersections\<close>

datatype seenFromState = outside | inside | both

text \<open>
  The three shapes. \<open>SphericalObstacle r c sf\<close> has radius \<open>r\<close> and center \<open>c\<close>;
  \<open>RectangleObstacle w h ls sf\<close> has width \<open>w\<close> and height \<open>h\<close>;
  \<open>BoxObstacle w h d ls sf\<close> has width, height and depth; \<open>ls\<close> is the frame of the
  shape and \<open>sf\<close> its \<^verbatim>\<open>seenFrom\<close> tag.
\<close>

datatype Obstacle =
    SphericalObstacle real Vec3 seenFromState
  | RectangleObstacle real real LocalSpace seenFromState
  | BoxObstacle real real real LocalSpace seenFromState

text \<open>
  Modelled from the spec: the result record (section 3). The back-reference
  \<^verbatim>\<open>obstacle\<close> is a pointer in the source; the model holds the obstacle it points to.
\<close>

record PathIntersection =
  intersect :: bool
  obstacle :: Obstacle
  distance :: real
  surfacePoint :: Vec3
  surfaceNormal :: Vec3
  steerHint :: Vec3

subsection \<open>PathIntersection::steerToAvoidIfNeeded\<close>

definition steerToAvoidIfNeeded :: "PathIntersection \<Rightarrow> AbstractVehicle \<Rightarrow> real \<Rightarrow> Vec3" where
  "steerToAvoidIfNeeded this vehicle minTimeToCollision =
     (let minDistanceToCollision = minTimeToCollision * speed vehicle in
      if intersect this \<and> distance this < minDistanceToCollision
      then
        let lateral = perpendicularComponent (steerHint this) (forward vehicle)
        in times_Vec3 (normalize_Vec3 lateral) (maxForce vehicle)
      else 0)"

subsection \<open>SphericalObstacle::findIntersectionWithVehiclePath\<close>

definition SphericalObstacle_findIntersectionWithVehiclePath ::
  "real \<Rightarrow> Vec3 \<Rightarrow> seenFromState \<Rightarrow> AbstractVehicle \<Rightarrow> PathIntersection \<Rightarrow> PathIntersection" where
  "SphericalObstacle_findIntersectionWithVehiclePath rad center sf vehicle prev =
     (let pi' = prev\<lparr>intersect := False\<rparr>;
          lc = localizePosition vehicle center;
          r = rad + radius vehicle;
          b = - 2 * vz lc;
          c = square (vx lc) + square (vy lc) + square (vz lc) - square r;
          d = (b * b) - (4 * c)
      in if d < 0 then pi'
         else
           let s = sqrtXXX d;
               p = (- b + s) / 2;
               q = (- b - s) / 2
           in if p < 0 \<and> q < 0 then pi'
              else
                let dst =
                      (if p > 0 \<and> q > 0
                       then (if p < q then p else q)
                       else (if sf = outside then 0 else (if p > 0 then p else q)));
                    sp = position vehicle + times_Vec3 (forward vehicle) dst;
                    sn = normalize_Vec3 (sp - center)
                in pi'\<lparr>intersect := True,
                      obstacle := SphericalObstacle rad center sf,
                      distance := dst,
                      surfacePoint := sp,
                      surfaceNormal := sn,
                      steerHint := sn\<rparr>)"

subsection \<open>RectangleObstacle::findIntersectionWithVehiclePath\<close>

text \<open>
  The two divisions by \<^verbatim>\<open>ld.z\<close> are written with a division that has no result for a
  zero divisor, so that "the divisor is never zero" is a property of the method: it
  then has a result on every input.
\<close>

definition divide_checked :: "real \<Rightarrow> real \<Rightarrow> real option" where
  "divide_checked a b = (if b = 0 then None else Some (a / b))"

definition RectangleObstacle_findIntersection_checked ::
  "real \<Rightarrow> real \<Rightarrow> LocalSpace \<Rightarrow> seenFromState \<Rightarrow> AbstractVehicle \<Rightarrow> PathIntersection
     \<Rightarrow> PathIntersection option" where
  "RectangleObstacle_findIntersection_checked width height ls sf vehicle prev =
     (let pi' = prev\<lparr>intersect := False\<rparr>;
          lp = localizePosition ls (position vehicle);
          ld = localizeDirection ls (forward vehicle)
      in if dot ld Vec3_forward = 0 then Some pi'
         else if vz lp > 0 \<and> vz ld > 0 then Some pi'
         else if vz lp < 0 \<and> vz ld < 0 then Some pi'
         else if sf = outside \<and> vz lp < 0 then Some pi'
         else if sf = inside \<and> vz lp > 0 then Some pi'
         else
           (case divide_checked (vx ld * vz lp) (vz ld) of
              None \<Rightarrow> None
            | Some qx \<Rightarrow>
               (case divide_checked (vy ld * vz lp) (vz ld) of
                  None \<Rightarrow> None
                | Some qy \<Rightarrow>
                   (let ix = vx lp - qx;
                        iy = vy lp - qy;
                        planeIntersection = Vec3 ix iy 0;
                        r = radius vehicle;
                        w = r + (width * 0.5);
                        h = r + (height * 0.5)
                    in if ix > w \<or> ix < - w \<or> iy > h \<or> iy < - h then Some pi'
                       else
                         (let pin = normalize_Vec3 planeIntersection;
                              gpin = globalizeDirection ls pin;
                              sideSign = (if vz lp > 0 then 1 else - 1);
                              opposingNormal = times_Vec3 (forward ls) sideSign
                          in Some (pi'\<lparr>intersect := True,
                                       obstacle := RectangleObstacle width height ls sf,
                                       distance := length_Vec3 (lp - planeIntersection),
                                       steerHint := opposingNormal + gpin,
                                       surfacePoint := globalizePosition ls planeIntersection,
                                       surfaceNormal := opposingNormal\<rparr>))))))"

text \<open>
  The method itself: the result of the checked computation. The second case never
  arises, as is proved below of the checked computation.
\<close>

definition RectangleObstacle_findIntersectionWithVehiclePath ::
  "real \<Rightarrow> real \<Rightarrow> LocalSpace \<Rightarrow> seenFromState \<Rightarrow> AbstractVehicle \<Rightarrow> PathIntersection
     \<Rightarrow> PathIntersection" where
  "RectangleObstacle_findIntersectionWithVehiclePath width height ls sf vehicle prev =
     (case RectangleObstacle_findIntersection_checked width height ls sf vehicle prev of
        Some pi' \<Rightarrow> pi'
      | None \<Rightarrow> prev\<lparr>intersect := False\<rparr>)"

subsection \<open>BoxObstacle::findIntersectionWithVehiclePath and the group scan\<close>

text \<open>
  The box builds its six faces with the six-argument constructor of
  \<^verbatim>\<open>RectangleObstacle\<close>, which is declared in the missing header: the \<^verbatim>\<open>seenFrom\<close>
  tag that constructor gives a rectangle is the parameter \<open>sfd\<close> of the model. The
  box's own tag is not passed on.
\<close>

definition BoxObstacle_faces ::
  "seenFromState \<Rightarrow> real \<Rightarrow> real \<Rightarrow> real \<Rightarrow> LocalSpace \<Rightarrow> Obstacle list" where
  "BoxObstacle_faces sfd width height depth ls =
     (let w = width; h = height; d = depth;
          s = side ls; u = up ls; f = forward ls; p = position ls;
          hw = times_Vec3 s (0.5 * width);
          hh = times_Vec3 u (0.5 * height);
          hd = times_Vec3 f (0.5 * depth);
          r1 = RectangleObstacle w h \<lparr>side = s, up = u, forward = f, position = p + hd\<rparr> sfd;
          r2 = RectangleObstacle w h \<lparr>side = - s, up = u, forward = - f, position = p - hd\<rparr> sfd;
          r3 = RectangleObstacle d h \<lparr>side = - f, up = u, forward = s, position = p + hw\<rparr> sfd;
          r4 = RectangleObstacle d h \<lparr>side = f, up = u, forward = - s, position = p - hw\<rparr> sfd;
          r5 = RectangleObstacle w d \<lparr>side = s, up = - f, forward = u, position = p + hh\<rparr> sfd;
          r6 = RectangleObstacle w d \<lparr>side = - s, up = - f, forward = - u, position = p - hh\<rparr> sfd
      in [r1, r2, r3, r4, r5, r6])"

text \<open>The measure of the mutual recursion below: a box is larger than its six faces.\<close>

definition weight :: "Obstacle \<Rightarrow> nat" where
  "weight ob = (case ob of BoxObstacle w h d ls sf \<Rightarrow> 9 | _ \<Rightarrow> 1)"

text \<open>
  The virtual method \<^verbatim>\<open>findIntersectionWithVehiclePath\<close>, the static method
  \<^verbatim>\<open>firstPathIntersectionWithObstacleGroup\<close> and its \<^verbatim>\<open>for\<close> loop call each other: a
  group may hold boxes, and a box scans the group of its faces. The scan returns the
  pair of its two output parameters \<^verbatim>\<open>nearest\<close> and \<^verbatim>\<open>next\<close>.

  The local \<^verbatim>\<open>PathIntersection next\<close> of the box's method is not initialised; its
  contents are the parameter \<open>fresh\<close>.
\<close>

function findIntersectionWithVehiclePath ::
    "seenFromState \<Rightarrow> PathIntersection \<Rightarrow> Obstacle \<Rightarrow> AbstractVehicle \<Rightarrow> PathIntersection
       \<Rightarrow> PathIntersection"
  and firstPathIntersectionWithObstacleGroup ::
    "seenFromState \<Rightarrow> PathIntersection \<Rightarrow> AbstractVehicle \<Rightarrow> Obstacle list
       \<Rightarrow> PathIntersection \<Rightarrow> PathIntersection \<Rightarrow> PathIntersection \<times> PathIntersection"
  and scanObstacles ::
    "seenFromState \<Rightarrow> PathIntersection \<Rightarrow> AbstractVehicle \<Rightarrow> Obstacle list
       \<Rightarrow> PathIntersection \<Rightarrow> PathIntersection \<Rightarrow> PathIntersection \<times> PathIntersection"
where
  "findIntersectionWithVehiclePath sfd fresh (SphericalObstacle r c sf) vehicle prev =
     SphericalObstacle_findIntersectionWithVehiclePath r c sf vehicle prev"
| "findIntersectionWithVehiclePath sfd fresh (RectangleObstacle w h ls sf) vehicle prev =
     RectangleObstacle_findIntersectionWithVehiclePath w h ls sf vehicle prev"
| "findIntersectionWithVehiclePath sfd fresh (BoxObstacle w h d ls sf) vehicle prev =
     fst (firstPathIntersectionWithObstacleGroup sfd fresh vehicle
            (BoxObstacle_faces sfd w h d ls) prev fresh)"
| "firstPathIntersectionWithObstacleGroup sfd fresh vehicle obstacles nearest next =
     scanObstacles sfd fresh vehicle obstacles
       (nearest\<lparr>intersect := False\<rparr>) (next\<lparr>intersect := False\<rparr>)"
| "scanObstacles sfd fresh vehicle [] nearest next = (nearest, next)"
| "scanObstacles sfd fresh vehicle (ob # obs) nearest next =
     (let next' = findIntersectionWithVehiclePath sfd fresh ob vehicle next;
          firstFound = \<not> intersect nearest;
          nearestFound = (intersect next' \<and> distance next' < distance nearest);
          nearest' = (if firstFound \<or> nearestFound then next' else nearest)
      in scanObstacles sfd fresh vehicle obs nearest' next')"
  by pat_completeness auto
termination
  by (relation "measure (\<lambda>x. case x of
        Inl (sfd, fresh, ob, vehicle, prev) \<Rightarrow> weight ob
      | Inr (Inl (sfd, fresh, vehicle, obs, nearest, next)) \<Rightarrow> sum_list (map weight obs) + 2
      | Inr (Inr (sfd, fresh, vehicle, obs, nearest, next)) \<Rightarrow> sum_list (map weight obs) + 1)")
    (auto simp: BoxObstacle_faces_def Let_def weight_def split: Obstacle.splits)

subsection \<open>Obstacle::steerToAvoid and Obstacle::steerToAvoidObstacles\<close>

definition steerToAvoid ::
  "seenFromState \<Rightarrow> PathIntersection \<Rightarrow> Obstacle \<Rightarrow> PathIntersection \<Rightarrow> AbstractVehicle \<Rightarrow> real
     \<Rightarrow> Vec3" where
  "steerToAvoid sfd fresh this prev vehicle minTimeToCollision =
     (let pi' = findIntersectionWithVehiclePath sfd fresh this vehicle prev
      in steerToAvoidIfNeeded pi' vehicle minTimeToCollision)"

definition steerToAvoidObstacles ::
  "seenFromState \<Rightarrow> PathIntersection \<Rightarrow> PathIntersection \<Rightarrow> PathIntersection \<Rightarrow> AbstractVehicle
     \<Rightarrow> real \<Rightarrow> Obstacle list \<Rightarrow> Vec3" where
  "steerToAvoidObstacles sfd fresh nearest0 next0 vehicle minTimeToCollision obstacles =
     (let nearest =
            fst (firstPathIntersectionWithObstacleGroup sfd fresh vehicle obstacles nearest0 next0)
      in steerToAvoidIfNeeded nearest vehicle minTimeToCollision)"

subsection \<open>Auxiliary notions\<close>

text \<open>
  The constant coefficient \<open>c\<close> of the quadratic and its two roots \<open>p\<close> and \<open>q\<close>, as
  the sphere's method computes them (the locals \<^verbatim>\<open>c\<close>, \<^verbatim>\<open>p\<close> and \<^verbatim>\<open>q\<close>).
\<close>

definition SphericalObstacle_c :: "AbstractVehicle \<Rightarrow> real \<Rightarrow> Vec3 \<Rightarrow> real" where
  "SphericalObstacle_c vehicle rad center =
     (let lc = localizePosition vehicle center;
          r = rad + radius vehicle
      in square (vx lc) + square (vy lc) + square (vz lc) - square r)"

definition SphericalObstacle_p :: "AbstractVehicle \<Rightarrow> real \<Rightarrow> Vec3 \<Rightarrow> real" where
  "SphericalObstacle_p vehicle rad center =
     (let lc = localizePosition vehicle center;
          b = - 2 * vz lc;
          c = SphericalObstacle_c vehicle rad center;
          d = (b * b) - (4 * c);
          s = sqrtXXX d
      in (- b + s) / 2)"

definition SphericalObstacle_q :: "AbstractVehicle \<Rightarrow> real \<Rightarrow> Vec3 \<Rightarrow> real" where
  "SphericalObstacle_q vehicle rad center =
     (let lc = localizePosition vehicle center;
          b = - 2 * vz lc;
          c = SphericalObstacle_c vehicle rad center;
          d = (b * b) - (4 * c);
          s = sqrtXXX d
      in (- b - s) / 2)"

text \<open>
  The conditions under which the sphere's and the rectangle's method return early,
  leaving \<^verbatim>\<open>intersect\<close> false: the disjunction of the tests before each
  \<^verbatim>\<open>return\<close>.
\<close>

definition SphericalObstacle_misses :: "real \<Rightarrow> Vec3 \<Rightarrow> AbstractVehicle \<Rightarrow> bool" where
  "SphericalObstacle_misses rad center vehicle =
     (let b = - 2 * vz (localizePosition vehicle center);
          c = SphericalObstacle_c vehicle rad center;
          p = SphericalObstacle_p vehicle rad center;
          q = SphericalObstacle_q vehicle rad center
      in (b * b) - (4 * c) < 0 \<or> (p < 0 \<and> q < 0))"

definition RectangleObstacle_misses ::
  "real \<Rightarrow> real \<Rightarrow> LocalSpace \<Rightarrow> seenFromState \<Rightarrow> AbstractVehicle \<Rightarrow> bool" where
  "RectangleObstacle_misses width height ls sf vehicle =
     (let lp = localizePosition ls (position vehicle);
          ld = localizeDirection ls (forward vehicle);
          ix = vx lp - (vx ld * vz lp / vz ld);
          iy = vy lp - (vy ld * vz lp / vz ld);
          w = radius vehicle + (width * 0.5);
          h = radius vehicle + (height * 0.5)
      in vz ld = 0 \<or> (vz lp > 0 \<and> vz ld > 0) \<or> (vz lp < 0 \<and> vz ld < 0)
            \<or> (sf = outside \<and> vz lp < 0) \<or> (sf = inside \<and> vz lp > 0)
            \<or> ix > w \<or> ix < - w \<or> iy > h \<or> iy < - h)"

text \<open>
  Two results are the same for a caller when both report no intersection, or they are
  equal: the fields of a record that reports no intersection carry no meaning.
\<close>

definition sameResult :: "PathIntersection \<Rightarrow> PathIntersection \<Rightarrow> bool" where
  "sameResult a b = (intersect a \<or> intersect b \<longrightarrow> a = b)"

text \<open>
  The selection of the group scan over the reports of the obstacles: the result is the
  report of an intersecting obstacle that is strictly nearer than every intersecting
  obstacle before it in the group, and at least as near as every one after it.
\<close>

definition selected :: "(Obstacle \<Rightarrow> PathIntersection) \<Rightarrow> Obstacle list \<Rightarrow> PathIntersection \<Rightarrow> bool" where
  "selected report obs res =
     (\<exists>before ob after. obs = before @ ob # after \<and> intersect (report ob) \<and> res = report ob
        \<and> (\<forall>x \<in> set before. intersect (report x) \<longrightarrow> distance (report ob) < distance (report x))
        \<and> (\<forall>x \<in> set after. intersect (report x) \<longrightarrow> distance (report ob) \<le> distance (report x)))"

text \<open>
  A frame is orthonormal when its three axes are unit vectors across each other.
\<close>

definition orthonormal :: "LocalSpace \<Rightarrow> bool" where
  "orthonormal ls =
     (dot (side ls) (side ls) = 1 \<and> dot (up ls) (up ls) = 1 \<and> dot (forward ls) (forward ls) = 1
      \<and> dot (side ls) (up ls) = 0 \<and> dot (side ls) (forward ls) = 0
      \<and> dot (up ls) (forward ls) = 0)"

text \<open>
  What makes the surface normal of a shape a unit vector: a sphere's surface point is
  not its center; a rectangle's forward axis, and each axis of a box, has length 1.
\<close>

definition unitNormalShape :: "Obstacle \<Rightarrow> PathIntersection \<Rightarrow> bool" where
  "unitNormalShape ob res =
     (case ob of
        SphericalObstacle r c sf \<Rightarrow> surfacePoint res \<noteq> c
      | RectangleObstacle w h ls sf \<Rightarrow> length_Vec3 (forward ls) = 1
      | BoxObstacle w h d ls sf \<Rightarrow>
          length_Vec3 (side ls) = 1 \<and> length_Vec3 (up ls) = 1 \<and> length_Vec3 (forward ls) = 1)"

subsection \<open>Inputs for the examples\<close>

text \<open>
  A vehicle at the origin that heads along +Z, with the given speed, radius and maximum
  force; an intersection record at a given distance along +Z with a given steering
  hint; a record that reports no intersection; the frame of a rectangle whose plane
  holds the Z axis direction; the frame of a box at (0, 0, 10) along the world axes; and
  the frame of the face of that box (of width, height and depth 2) that looks at the
  origin.
\<close>

definition vehicleZ :: "real \<Rightarrow> real \<Rightarrow> real \<Rightarrow> AbstractVehicle" where
  "vehicleZ sp r mf =
     \<lparr>side = Vec3 1 0 0, up = Vec3 0 1 0, forward = Vec3 0 0 1, position = Vec3 0 0 0,
      speed = sp, radius = r, maxForce = mf\<rparr>"

definition hitAt :: "real \<Rightarrow> Vec3 \<Rightarrow> PathIntersection" where
  "hitAt dst hint =
     \<lparr>intersect = True, obstacle = SphericalObstacle 1 (Vec3 0 0 10) outside, distance = dst,
      surfacePoint = Vec3 0 0 dst, surfaceNormal = hint, steerHint = hint\<rparr>"

definition noHit :: PathIntersection where
  "noHit = \<lparr>intersect = False, obstacle = SphericalObstacle 0 (Vec3 0 0 0) outside, distance = 0,
      surfacePoint = Vec3 0 0 0, surfaceNormal = Vec3 0 0 0, steerHint = Vec3 0 0 0\<rparr>"

definition parallelRectangle :: LocalSpace where
  "parallelRectangle =
     \<lparr>side = Vec3 0 0 (- 1), up = Vec3 0 1 0, forward = Vec3 1 0 0, position = Vec3 5 0 5\<rparr>"

definition unitBox :: LocalSpace where
  "unitBox = \<lparr>side = Vec3 1 0 0, up = Vec3 0 1 0, forward = Vec3 0 0 1, position = Vec3 0 0 10\<rparr>"

definition unitBoxBack :: LocalSpace where
  "unitBoxBack =
     \<lparr>side = Vec3 (- 1) 0 0, up = Vec3 0 1 0, forward = Vec3 0 0 (- 1), position = Vec3 0 0 9\<rparr>"

section \<open>Vector algebra\<close>

lemmas Vec3_ops = zero_Vec3_def plus_Vec3_def minus_Vec3_def uminus_Vec3_def
  times_Vec3_def divide_Vec3_def dot_def

lemma dot_self_nonneg: "0 \<le> dot a a"
  by (simp add: dot_def)

lemma dot_self_eq_0: "dot a a = 0 \<longleftrightarrow> a = 0"
  by (cases a) (simp add: Vec3_ops sum_squares_eq_zero_iff add_nonneg_eq_0_iff)

lemma length_Vec3_nonneg: "0 \<le> length_Vec3 a"
  by (simp add: length_Vec3_def sqrtXXX_def dot_self_nonneg)

lemma length_Vec3_eq_0: "length_Vec3 a = 0 \<longleftrightarrow> a = 0"
  by (simp add: length_Vec3_def sqrtXXX_def dot_self_eq_0)

lemma length_Vec3_pos: "0 < length_Vec3 a \<longleftrightarrow> a \<noteq> 0"
  using length_Vec3_nonneg [of a] length_Vec3_eq_0 [of a] by linarith

lemma dot_divide_Vec3: "dot (divide_Vec3 a s) b = dot a b / s"
  by (simp add: Vec3_ops add_divide_distrib)

lemma dot_times_Vec3: "dot (times_Vec3 a s) b = dot a b * s"
  by (simp add: Vec3_ops algebra_simps)

lemma length_times_Vec3: "length_Vec3 (times_Vec3 a s) = length_Vec3 a * \<bar>s\<bar>"
proof -
  have "dot (times_Vec3 a s) (times_Vec3 a s) = dot a a * s\<^sup>2"
    by (simp add: Vec3_ops power2_eq_square algebra_simps)
  then show ?thesis
    by (simp add: length_Vec3_def sqrtXXX_def real_sqrt_mult)
qed

lemma length_divide_Vec3: "length_Vec3 (divide_Vec3 a s) = length_Vec3 a / \<bar>s\<bar>"
proof -
  have "dot (divide_Vec3 a s) (divide_Vec3 a s) = dot a a / s\<^sup>2"
    by (simp add: Vec3_ops power2_eq_square add_divide_distrib)
  then show ?thesis
    by (simp add: length_Vec3_def sqrtXXX_def real_sqrt_divide)
qed

lemma length_normalize_Vec3: "a \<noteq> 0 \<Longrightarrow> length_Vec3 (normalize_Vec3 a) = 1"
  using length_Vec3_pos [of a]
  by (simp add: normalize_Vec3_def Let_def length_divide_Vec3)

lemma normalize_Vec3_zero: "normalize_Vec3 0 = 0"
  using length_Vec3_eq_0 [of 0] by (simp add: normalize_Vec3_def)

lemma normalize_Vec3_eq_0: "normalize_Vec3 a = 0 \<longleftrightarrow> a = 0"
proof
  assume "normalize_Vec3 a = 0"
  show "a = 0"
  proof (rule ccontr)
    assume "a \<noteq> 0"
    then have "length_Vec3 (normalize_Vec3 a) = 1" by (rule length_normalize_Vec3)
    with \<open>normalize_Vec3 a = 0\<close> length_Vec3_eq_0 [of 0] show False by simp
  qed
next
  assume "a = 0" then show "normalize_Vec3 a = 0" by (simp add: normalize_Vec3_zero)
qed

lemma times_Vec3_eq_0: "times_Vec3 a s = 0 \<longleftrightarrow> a = 0 \<or> s = 0"
  by (cases a) (auto simp add: Vec3_ops)

lemma dot_normalize_Vec3: "dot a b = 0 \<Longrightarrow> dot (normalize_Vec3 a) b = 0"
  by (simp add: normalize_Vec3_def Let_def dot_divide_Vec3)

lemma dot_perpendicularComponent:
  "dot f f = 1 \<Longrightarrow> dot (perpendicularComponent a f) f = 0"
proof -
  assume u: "dot f f = 1"
  have "dot (perpendicularComponent a f) f = dot a f - dot a f * dot f f"
    by (simp add: perpendicularComponent_def parallelComponent_def Vec3_ops algebra_simps)
  with u show ?thesis by simp
qed

lemma length_uminus_Vec3: "length_Vec3 (- a) = length_Vec3 a"
  by (simp add: length_Vec3_def Vec3_ops)

lemma length_times_sign: "length_Vec3 (times_Vec3 a (if c then 1 else - 1)) = length_Vec3 a"
  by (simp add: length_times_Vec3)

lemma minus_Vec3_eq_0: "a - b = (0::Vec3) \<longleftrightarrow> a = b"
  by (cases a; cases b) (simp add: Vec3_ops)

lemma uminus_uminus_Vec3: "- (- a) = (a::Vec3)"
  by (cases a) (simp add: Vec3_ops)

lemma dot_commute: "dot a b = dot b a"
  by (simp add: dot_def mult.commute)

lemma dot_uminus_left: "dot (- a) b = - dot a b"
  by (simp add: Vec3_ops)

lemma dot_uminus_right: "dot a (- b) = - dot a b"
  by (simp add: Vec3_ops)

lemma dot_minus_plus: "dot (x - (p + q)) a = dot (x - p) a - dot q a"
  by (simp add: Vec3_ops algebra_simps)

lemma dot_minus_minus: "dot (x - (p - q)) a = dot (x - p) a + dot q a"
  by (simp add: Vec3_ops algebra_simps)

lemma orthonormal_dots:
  assumes "orthonormal ls"
  shows "dot (side ls) (side ls) = 1" "dot (up ls) (up ls) = 1" "dot (forward ls) (forward ls) = 1"
    "dot (side ls) (up ls) = 0" "dot (side ls) (forward ls) = 0" "dot (up ls) (forward ls) = 0"
    "dot (up ls) (side ls) = 0" "dot (forward ls) (side ls) = 0" "dot (forward ls) (up ls) = 0"
  using assms by (simp_all add: orthonormal_def dot_commute [of "up ls" "side ls"]
      dot_commute [of "forward ls" "side ls"] dot_commute [of "forward ls" "up ls"])

section \<open>The avoidance force\<close>

text \<open>
  C2 (as the code has it). \<^verbatim>\<open>steerToAvoidIfNeeded\<close> returns the zero vector when there is
  no intersection or the distance is at least \<open>minTimeToCollision * speed\<close>; otherwise
  it returns the component of the steering hint perpendicular to the vehicle's forward
  direction, normalized and scaled by the maximum force. The result is the zero vector
  exactly when there is no intersection, or the distance is at least
  \<open>minTimeToCollision * speed\<close>, or the maximum force is zero, or the steering hint has
  no component perpendicular to forward.
\<close>

theorem steerToAvoidIfNeeded_result:
  "(steerToAvoidIfNeeded this vehicle minTimeToCollision = 0 \<longleftrightarrow>
      \<not> intersect this \<or> minTimeToCollision * speed vehicle \<le> distance this
      \<or> maxForce vehicle = 0
      \<or> perpendicularComponent (steerHint this) (forward vehicle) = 0)
   \<and> (\<not> intersect this \<or> minTimeToCollision * speed vehicle \<le> distance this
        \<longrightarrow> steerToAvoidIfNeeded this vehicle minTimeToCollision = 0)
   \<and> (intersect this \<and> distance this < minTimeToCollision * speed vehicle
        \<longrightarrow> steerToAvoidIfNeeded this vehicle minTimeToCollision =
            times_Vec3 (normalize_Vec3 (perpendicularComponent (steerHint this) (forward vehicle)))
              (maxForce vehicle))"
  by (auto simp add: steerToAvoidIfNeeded_def Let_def times_Vec3_eq_0 normalize_Vec3_eq_0)

text \<open>
  The "only if" of C2 as stated fails: with a maximum force of zero the result is the
  zero vector although an intersection lies within the horizon.
\<close>

theorem steerToAvoidIfNeeded_zero_iff_counterexample:
  "\<not> (steerToAvoidIfNeeded (hitAt 9 (Vec3 1 0 0)) (vehicleZ 1 0 0) 10 = 0 \<longleftrightarrow>
        \<not> intersect (hitAt 9 (Vec3 1 0 0))
        \<or> 10 * speed (vehicleZ 1 0 0) \<le> distance (hitAt 9 (Vec3 1 0 0)))"
  by (simp add: steerToAvoidIfNeeded_def hitAt_def vehicleZ_def Let_def Vec3_ops)

theorem steerToAvoidIfNeeded_result_witness:
  "steerToAvoidIfNeeded (hitAt 9 (Vec3 1 0 (- 1))) (vehicleZ 1 0 2) 10 = Vec3 2 0 0"
proof -
  have l: "length_Vec3 (Vec3 1 0 0) = 1"
    by (simp add: length_Vec3_def sqrtXXX_def dot_def)
  have p: "perpendicularComponent (steerHint (hitAt 9 (Vec3 1 0 (- 1)))) (forward (vehicleZ 1 0 2))
             = Vec3 1 0 0"
    by (simp add: perpendicularComponent_def parallelComponent_def hitAt_def vehicleZ_def Vec3_ops)
  have n: "normalize_Vec3 (Vec3 1 0 0) = Vec3 1 0 0"
    by (simp add: normalize_Vec3_def l Let_def divide_Vec3_def)
  have h: "intersect (hitAt 9 (Vec3 1 0 (- 1)))
            \<and> distance (hitAt 9 (Vec3 1 0 (- 1))) < 10 * speed (vehicleZ 1 0 2)"
    by (simp add: hitAt_def vehicleZ_def)
  from steerToAvoidIfNeeded_result [of "hitAt 9 (Vec3 1 0 (- 1))" "vehicleZ 1 0 2" 10] h
  have "steerToAvoidIfNeeded (hitAt 9 (Vec3 1 0 (- 1))) (vehicleZ 1 0 2) 10 =
        times_Vec3 (normalize_Vec3 (perpendicularComponent (steerHint (hitAt 9 (Vec3 1 0 (- 1))))
           (forward (vehicleZ 1 0 2)))) (maxForce (vehicleZ 1 0 2))"
    by blast
  then show ?thesis
    by (simp add: p n) (simp add: vehicleZ_def times_Vec3_def)
qed

text \<open>
  C3 (as the code has it). For an intersection within the horizon and a vehicle whose
  forward direction is a unit vector, the returned force has no component along
  forward: its dot product with forward is zero. Its magnitude is the absolute value of
  the maximum force whenever the steering hint has a component perpendicular to
  forward.
\<close>

theorem steerToAvoidIfNeeded_lateral:
  assumes "intersect this" and "distance this < minTimeToCollision * speed vehicle"
    and "dot (forward vehicle) (forward vehicle) = 1"
  shows "dot (steerToAvoidIfNeeded this vehicle minTimeToCollision) (forward vehicle) = 0
         \<and> (perpendicularComponent (steerHint this) (forward vehicle) \<noteq> 0 \<longrightarrow>
              length_Vec3 (steerToAvoidIfNeeded this vehicle minTimeToCollision)
                = \<bar>maxForce vehicle\<bar>)"
  using assms
  by (simp add: steerToAvoidIfNeeded_def Let_def dot_times_Vec3 dot_normalize_Vec3
      dot_perpendicularComponent length_times_Vec3 length_normalize_Vec3)

text \<open>
  C3 as stated fails where the steering hint is parallel to forward (a vehicle heading
  straight at the center of a sphere): the force is the zero vector, whose magnitude is
  not the maximum force.
\<close>

theorem steerToAvoidIfNeeded_lateral_counterexample:
  "\<not> (length_Vec3 (steerToAvoidIfNeeded (hitAt 9 (Vec3 0 0 (- 1))) (vehicleZ 1 0 1) 10)
        = maxForce (vehicleZ 1 0 1))"
proof -
  have p: "perpendicularComponent (steerHint (hitAt 9 (Vec3 0 0 (- 1)))) (forward (vehicleZ 1 0 1)) = 0"
    by (simp add: perpendicularComponent_def parallelComponent_def hitAt_def vehicleZ_def Vec3_ops)
  have "steerToAvoidIfNeeded (hitAt 9 (Vec3 0 0 (- 1))) (vehicleZ 1 0 1) 10 = 0"
    using p by (simp add: steerToAvoidIfNeeded_def Let_def normalize_Vec3_zero times_Vec3_eq_0)
  moreover have "length_Vec3 0 = 0" by (simp add: length_Vec3_eq_0)
  ultimately show ?thesis by (simp add: vehicleZ_def)
qed

theorem steerToAvoidIfNeeded_lateral_witness:
  "dot (steerToAvoidIfNeeded (hitAt 9 (Vec3 1 0 (- 1))) (vehicleZ 1 0 2) 10)
       (forward (vehicleZ 1 0 2)) = 0
   \<and> length_Vec3 (steerToAvoidIfNeeded (hitAt 9 (Vec3 1 0 (- 1))) (vehicleZ 1 0 2) 10) = 2"
proof -
  have p: "perpendicularComponent (steerHint (hitAt 9 (Vec3 1 0 (- 1)))) (forward (vehicleZ 1 0 2))
             \<noteq> 0"
    by (simp add: perpendicularComponent_def parallelComponent_def hitAt_def vehicleZ_def Vec3_ops)
  have a: "intersect (hitAt 9 (Vec3 1 0 (- 1)))" by (simp add: hitAt_def)
  have b: "distance (hitAt 9 (Vec3 1 0 (- 1))) < 10 * speed (vehicleZ 1 0 2)"
    by (simp add: hitAt_def vehicleZ_def)
  have c: "dot (forward (vehicleZ 1 0 2)) (forward (vehicleZ 1 0 2)) = 1"
    by (simp add: vehicleZ_def dot_def)
  have m: "\<bar>maxForce (vehicleZ 1 0 2)\<bar> = 2" by (simp add: vehicleZ_def)
  from steerToAvoidIfNeeded_lateral [OF a b c] p m show ?thesis by simp
qed

section \<open>The sphere\<close>

lemma SphericalObstacle_find_roots:
  "SphericalObstacle_findIntersectionWithVehiclePath rad center sf vehicle prev =
     (let b = - 2 * vz (localizePosition vehicle center);
          c = SphericalObstacle_c vehicle rad center;
          p = SphericalObstacle_p vehicle rad center;
          q = SphericalObstacle_q vehicle rad center
      in if (b * b) - (4 * c) < 0 then prev\<lparr>intersect := False\<rparr>
         else if p < 0 \<and> q < 0 then prev\<lparr>intersect := False\<rparr>
         else
           let dst = (if p > 0 \<and> q > 0 then (if p < q then p else q)
                        else (if sf = outside then 0 else (if p > 0 then p else q)));
               sp = position vehicle + times_Vec3 (forward vehicle) dst;
               sn = normalize_Vec3 (sp - center)
           in prev\<lparr>intersect := True, obstacle := SphericalObstacle rad center sf,
                   distance := dst, surfacePoint := sp, surfaceNormal := sn, steerHint := sn\<rparr>)"
  unfolding SphericalObstacle_findIntersectionWithVehiclePath_def SphericalObstacle_c_def
    SphericalObstacle_p_def SphericalObstacle_q_def Let_def
  by simp

lemma SphericalObstacle_miss:
  "SphericalObstacle_misses r c vehicle \<Longrightarrow>
     SphericalObstacle_findIntersectionWithVehiclePath r c sf vehicle prev
       = prev\<lparr>intersect := False\<rparr>"
  unfolding SphericalObstacle_find_roots SphericalObstacle_misses_def Let_def
  by (auto simp only: if_True if_False split: if_splits)

lemma SphericalObstacle_hit:
  "\<not> SphericalObstacle_misses r c vehicle \<Longrightarrow>
     SphericalObstacle_findIntersectionWithVehiclePath r c sf vehicle prev =
       (let p = SphericalObstacle_p vehicle r c;
            q = SphericalObstacle_q vehicle r c;
            dst = (if p > 0 \<and> q > 0 then (if p < q then p else q)
                   else (if sf = outside then 0 else (if p > 0 then p else q)));
            sp = position vehicle + times_Vec3 (forward vehicle) dst;
            sn = normalize_Vec3 (sp - c)
        in prev\<lparr>intersect := True, obstacle := SphericalObstacle r c sf,
                distance := dst, surfacePoint := sp, surfaceNormal := sn, steerHint := sn\<rparr>)"
  unfolding SphericalObstacle_find_roots SphericalObstacle_misses_def Let_def
  by (simp only: de_Morgan_disj if_False split: if_splits)

lemma SphericalObstacle_intersect_iff:
  "intersect (SphericalObstacle_findIntersectionWithVehiclePath r c sf vehicle prev)
     \<longleftrightarrow> \<not> SphericalObstacle_misses r c vehicle"
  by (cases "SphericalObstacle_misses r c vehicle")
     (simp_all add: SphericalObstacle_miss SphericalObstacle_hit Let_def)

lemma roots_straddle:
  fixes b c :: real
  assumes "c < 0"
  shows "0 \<le> b * b - 4 * c" and "(- b - sqrt (b * b - 4 * c)) / 2 < 0"
    and "0 < (- b + sqrt (b * b - 4 * c)) / 2"
proof -
  have bb: "0 \<le> b * b" by simp
  with assms show d: "0 \<le> b * b - 4 * c" by linarith
  have "b * b < b * b - 4 * c" using assms by linarith
  then have "sqrt (b * b) < sqrt (b * b - 4 * c)" by (simp only: real_sqrt_less_iff)
  then have s: "\<bar>b\<bar> < sqrt (b * b - 4 * c)" by simp
  from s have lo: "- b < sqrt (b * b - 4 * c)" and hi: "b < sqrt (b * b - 4 * c)"
    by (simp_all add: abs_less_iff)
  from lo show "(- b - sqrt (b * b - 4 * c)) / 2 < 0" by simp
  from hi show "0 < (- b + sqrt (b * b - 4 * c)) / 2" by simp
qed

lemma SphericalObstacle_on_axis:
  shows "1 < z \<Longrightarrow>
     SphericalObstacle_findIntersectionWithVehiclePath 1 (Vec3 0 0 z) sf (vehicleZ sp 0 mf) prev =
       prev\<lparr>intersect := True, obstacle := SphericalObstacle 1 (Vec3 0 0 z) sf,
            distance := z - 1, surfacePoint := Vec3 0 0 (z - 1),
            surfaceNormal := Vec3 0 0 (- 1), steerHint := Vec3 0 0 (- 1)\<rparr>"
    and "z < - 1 \<Longrightarrow>
     SphericalObstacle_findIntersectionWithVehiclePath 1 (Vec3 0 0 z) sf (vehicleZ sp 0 mf) prev =
       prev\<lparr>intersect := False\<rparr>"
proof -
  have lc: "localizePosition (vehicleZ sp 0 mf) (Vec3 0 0 z) = Vec3 0 0 z"
    by (simp add: localizePosition_def localizeDirection_def vehicleZ_def Vec3_ops)
  have r: "radius (vehicleZ sp 0 mf) = 0" by (simp add: vehicleZ_def)
  have c: "SphericalObstacle_c (vehicleZ sp 0 mf) 1 (Vec3 0 0 z) = z * z - 1"
    by (simp add: SphericalObstacle_c_def lc square_def r)
  have d: "- 2 * z * (- 2 * z) - 4 * (z * z - 1) = 4" by (simp add: algebra_simps)
  have s: "sqrtXXX 4 = 2" by (simp add: sqrtXXX_def)
  have p: "SphericalObstacle_p (vehicleZ sp 0 mf) 1 (Vec3 0 0 z) = z + 1"
    unfolding SphericalObstacle_p_def Let_def lc c Vec3.sel d s by simp
  have q: "SphericalObstacle_q (vehicleZ sp 0 mf) 1 (Vec3 0 0 z) = z - 1"
    unfolding SphericalObstacle_q_def Let_def lc c Vec3.sel d s by simp
  have n: "normalize_Vec3 (Vec3 0 0 (- 1)) = Vec3 0 0 (- 1)"
    by (simp add: normalize_Vec3_def length_Vec3_def sqrtXXX_def Vec3_ops)
  have v: "position (vehicleZ sp 0 mf) = Vec3 0 0 0" "forward (vehicleZ sp 0 mf) = Vec3 0 0 1"
    by (simp_all add: vehicleZ_def)
  show "1 < z \<Longrightarrow>
     SphericalObstacle_findIntersectionWithVehiclePath 1 (Vec3 0 0 z) sf (vehicleZ sp 0 mf) prev =
       prev\<lparr>intersect := True, obstacle := SphericalObstacle 1 (Vec3 0 0 z) sf,
            distance := z - 1, surfacePoint := Vec3 0 0 (z - 1),
            surfaceNormal := Vec3 0 0 (- 1), steerHint := Vec3 0 0 (- 1)\<rparr>"
    unfolding SphericalObstacle_find_roots [of 1 "Vec3 0 0 z" sf "vehicleZ sp 0 mf" prev]
      Let_def lc c p q Vec3.sel d v
    by (simp add: Vec3_ops n)
  show "z < - 1 \<Longrightarrow>
     SphericalObstacle_findIntersectionWithVehiclePath 1 (Vec3 0 0 z) sf (vehicleZ sp 0 mf) prev =
       prev\<lparr>intersect := False\<rparr>"
    unfolding SphericalObstacle_find_roots [of 1 "Vec3 0 0 z" sf "vehicleZ sp 0 mf" prev]
      Let_def lc c p q Vec3.sel d v
    by simp
qed

text \<open>
  C4. A vehicle at the origin that heads along +Z, with radius 0 (and any speed), whose
  side and up axes lie across Z, and a sphere of radius 1 centered at (0, 0, 10): the
  query reports an intersection at distance 9, with surface point (0, 0, 9) and surface
  normal (0, 0, -1).
\<close>

theorem SphericalObstacle_head_on:
  assumes "position vehicle = Vec3 0 0 0" and "forward vehicle = Vec3 0 0 1"
    and "radius vehicle = 0" and "vz (side vehicle) = 0" and "vz (up vehicle) = 0"
  shows "intersect (SphericalObstacle_findIntersectionWithVehiclePath 1 (Vec3 0 0 10) sf vehicle prev)
       \<and> distance (SphericalObstacle_findIntersectionWithVehiclePath 1 (Vec3 0 0 10) sf vehicle prev) = 9
       \<and> surfacePoint (SphericalObstacle_findIntersectionWithVehiclePath 1 (Vec3 0 0 10) sf vehicle prev)
           = Vec3 0 0 9
       \<and> surfaceNormal (SphericalObstacle_findIntersectionWithVehiclePath 1 (Vec3 0 0 10) sf vehicle prev)
           = Vec3 0 0 (- 1)"
proof -
  have lc: "localizePosition vehicle (Vec3 0 0 10) = Vec3 0 0 10"
    using assms by (simp add: localizePosition_def localizeDirection_def Vec3_ops)
  have c: "SphericalObstacle_c vehicle 1 (Vec3 0 0 10) = 99"
    using assms by (simp add: SphericalObstacle_c_def lc square_def)
  have s: "sqrtXXX 4 = 2" by (simp add: sqrtXXX_def)
  have p: "SphericalObstacle_p vehicle 1 (Vec3 0 0 10) = 11"
    by (simp add: SphericalObstacle_p_def lc c s)
  have q: "SphericalObstacle_q vehicle 1 (Vec3 0 0 10) = 9"
    by (simp add: SphericalObstacle_q_def lc c s)
  have n: "normalize_Vec3 (Vec3 0 0 (- 1)) = Vec3 0 0 (- 1)"
    by (simp add: normalize_Vec3_def length_Vec3_def sqrtXXX_def Vec3_ops)
  show ?thesis
    using assms by (simp add: SphericalObstacle_find_roots lc c p q Vec3_ops n Let_def)
qed

theorem SphericalObstacle_head_on_witness:
  "distance (SphericalObstacle_findIntersectionWithVehiclePath 1 (Vec3 0 0 10) outside
      (vehicleZ 0 0 1) noHit) = 9
   \<and> surfaceNormal (SphericalObstacle_findIntersectionWithVehiclePath 1 (Vec3 0 0 10) outside
      (vehicleZ 0 0 1) noHit) = Vec3 0 0 (- 1)"
  using SphericalObstacle_head_on [of "vehicleZ 0 0 1" outside noHit]
  by (simp add: vehicleZ_def)

text \<open>
  C5. When the vehicle's origin lies strictly inside the sphere (grown by the vehicle's
  radius), that is when the constant coefficient \<open>c\<close> of the quadratic is negative, the
  two roots straddle zero: \<open>q < 0 < p\<close>. The query then reports an intersection, at
  distance 0 if the sphere is seen from outside, and at the positive root \<open>p\<close> if it is
  seen from inside or from both sides.
\<close>

theorem SphericalObstacle_inside:
  assumes "SphericalObstacle_c vehicle rad center < 0"
  shows "SphericalObstacle_q vehicle rad center < 0
       \<and> 0 < SphericalObstacle_p vehicle rad center
       \<and> intersect (SphericalObstacle_findIntersectionWithVehiclePath rad center sf vehicle prev)
       \<and> distance (SphericalObstacle_findIntersectionWithVehiclePath rad center sf vehicle prev)
           = (if sf = outside then 0 else SphericalObstacle_p vehicle rad center)"
proof -
  let ?b = "- 2 * vz (localizePosition vehicle center)"
  let ?c = "SphericalObstacle_c vehicle rad center"
  have d: "\<not> ?b * ?b - 4 * ?c < 0" using roots_straddle(1) [OF assms, of ?b] by linarith
  have q: "SphericalObstacle_q vehicle rad center < 0"
    using roots_straddle(2) [OF assms, of ?b]
    by (simp add: SphericalObstacle_q_def Let_def sqrtXXX_def)
  have p: "0 < SphericalObstacle_p vehicle rad center"
    using roots_straddle(3) [OF assms, of ?b]
    by (simp add: SphericalObstacle_p_def Let_def sqrtXXX_def)
  from d p q show ?thesis
    by (simp add: SphericalObstacle_find_roots Let_def)
qed

theorem SphericalObstacle_inside_witness:
  "intersect (SphericalObstacle_findIntersectionWithVehiclePath 2 (Vec3 0 0 1) outside
      (vehicleZ 1 0 1) noHit)
   \<and> distance (SphericalObstacle_findIntersectionWithVehiclePath 2 (Vec3 0 0 1) outside
      (vehicleZ 1 0 1) noHit) = 0"
proof -
  have "SphericalObstacle_c (vehicleZ 1 0 1) 2 (Vec3 0 0 1) < 0"
    by (simp add: SphericalObstacle_c_def localizePosition_def localizeDirection_def
        vehicleZ_def square_def Vec3_ops)
  from SphericalObstacle_inside [OF this, of outside noHit] show ?thesis by simp
qed

section \<open>The rectangle\<close>

lemma RectangleObstacle_find_Some:
  "RectangleObstacle_findIntersection_checked width height ls sf vehicle prev =
     Some (RectangleObstacle_findIntersectionWithVehiclePath width height ls sf vehicle prev)"
  by (auto simp add: RectangleObstacle_findIntersectionWithVehiclePath_def
      RectangleObstacle_findIntersection_checked_def Let_def divide_checked_def
      dot_def Vec3_forward_def split: option.splits)

lemma RectangleObstacle_find_unfold:
  "RectangleObstacle_findIntersectionWithVehiclePath width height ls sf vehicle prev =
     (let lp = localizePosition ls (position vehicle);
          ld = localizeDirection ls (forward vehicle);
          ix = vx lp - (vx ld * vz lp / vz ld);
          iy = vy lp - (vy ld * vz lp / vz ld);
          w = radius vehicle + (width * 0.5);
          h = radius vehicle + (height * 0.5)
      in if vz ld = 0 \<or> (vz lp > 0 \<and> vz ld > 0) \<or> (vz lp < 0 \<and> vz ld < 0)
            \<or> (sf = outside \<and> vz lp < 0) \<or> (sf = inside \<and> vz lp > 0)
            \<or> ix > w \<or> ix < - w \<or> iy > h \<or> iy < - h
         then prev\<lparr>intersect := False\<rparr>
         else
           let opposingNormal = times_Vec3 (forward ls) (if vz lp > 0 then 1 else - 1)
           in \<lparr>intersect = True,
               obstacle = RectangleObstacle width height ls sf,
               distance = length_Vec3 (lp - Vec3 ix iy 0),
               surfacePoint = globalizePosition ls (Vec3 ix iy 0),
               surfaceNormal = opposingNormal,
               steerHint = opposingNormal + globalizeDirection ls (normalize_Vec3 (Vec3 ix iy 0))\<rparr>)"
  by (simp add: RectangleObstacle_findIntersectionWithVehiclePath_def
      RectangleObstacle_findIntersection_checked_def Let_def divide_checked_def
      dot_def Vec3_forward_def)

lemma RectangleObstacle_miss:
  "RectangleObstacle_misses w h ls sf vehicle \<Longrightarrow>
     RectangleObstacle_findIntersectionWithVehiclePath w h ls sf vehicle prev
       = prev\<lparr>intersect := False\<rparr>"
  unfolding RectangleObstacle_find_unfold RectangleObstacle_misses_def Let_def
  by (simp only: if_True)

lemma RectangleObstacle_hit:
  "\<not> RectangleObstacle_misses w h ls sf vehicle \<Longrightarrow>
     RectangleObstacle_findIntersectionWithVehiclePath w h ls sf vehicle prev =
       (let lp = localizePosition ls (position vehicle);
            ld = localizeDirection ls (forward vehicle);
            ix = vx lp - (vx ld * vz lp / vz ld);
            iy = vy lp - (vy ld * vz lp / vz ld);
            opposingNormal = times_Vec3 (forward ls) (if vz lp > 0 then 1 else - 1)
        in \<lparr>intersect = True,
            obstacle = RectangleObstacle w h ls sf,
            distance = length_Vec3 (lp - Vec3 ix iy 0),
            surfacePoint = globalizePosition ls (Vec3 ix iy 0),
            surfaceNormal = opposingNormal,
            steerHint = opposingNormal + globalizeDirection ls (normalize_Vec3 (Vec3 ix iy 0))\<rparr>)"
  unfolding RectangleObstacle_find_unfold RectangleObstacle_misses_def Let_def
  by (simp only: if_False)

lemma RectangleObstacle_intersect_iff:
  "intersect (RectangleObstacle_findIntersectionWithVehiclePath w h ls sf vehicle prev)
     \<longleftrightarrow> \<not> RectangleObstacle_misses w h ls sf vehicle"
  by (cases "RectangleObstacle_misses w h ls sf vehicle")
     (simp_all add: RectangleObstacle_miss RectangleObstacle_hit Let_def)

lemma RectangleObstacle_surfaceNormal:
  assumes "intersect (RectangleObstacle_findIntersectionWithVehiclePath w h ls sf vehicle prev)"
  shows "length_Vec3 (surfaceNormal
           (RectangleObstacle_findIntersectionWithVehiclePath w h ls sf vehicle prev))
         = length_Vec3 (forward ls)"
proof -
  from assms have "\<not> RectangleObstacle_misses w h ls sf vehicle"
    by (simp add: RectangleObstacle_intersect_iff)
  then show ?thesis
    by (simp add: RectangleObstacle_hit Let_def length_times_sign)
qed

lemma RectangleObstacle_parallel:
  "dot (forward vehicle) (forward ls) = 0 \<Longrightarrow> RectangleObstacle_misses w h ls sf vehicle"
  by (simp add: RectangleObstacle_misses_def localizeDirection_def)

lemma RectangleObstacle_axis_misses:
  assumes "localizeDirection ls (forward vehicle) = Vec3 0 0 e" and "e \<noteq> 0"
  shows "RectangleObstacle_misses w h ls sf vehicle \<longleftrightarrow>
     (let lp = localizePosition ls (position vehicle)
      in (vz lp > 0 \<and> e > 0) \<or> (vz lp < 0 \<and> e < 0)
         \<or> (sf = outside \<and> vz lp < 0) \<or> (sf = inside \<and> vz lp > 0)
         \<or> vx lp > radius vehicle + w * 0.5 \<or> vx lp < - (radius vehicle + w * 0.5)
         \<or> vy lp > radius vehicle + h * 0.5 \<or> vy lp < - (radius vehicle + h * 0.5))"
  using assms by (simp add: RectangleObstacle_misses_def Let_def)

lemma RectangleObstacle_axis_distance:
  assumes "localizeDirection ls (forward vehicle) = Vec3 0 0 e"
    and "\<not> RectangleObstacle_misses w h ls sf vehicle"
  shows "distance (RectangleObstacle_findIntersectionWithVehiclePath w h ls sf vehicle prev)
           = \<bar>vz (localizePosition ls (position vehicle))\<bar>"
proof -
  have "length_Vec3 (Vec3 0 0 z) = \<bar>z\<bar>" for z
    by (simp add: length_Vec3_def sqrtXXX_def dot_def)
  with assms show ?thesis
    by (simp add: RectangleObstacle_hit Let_def minus_Vec3_def)
qed

lemma RectangleObstacle_misses_tag:
  assumes "0 < vz (localizePosition ls (position vehicle))" and "sf \<noteq> inside" and "sf' \<noteq> inside"
  shows "RectangleObstacle_misses w h ls sf vehicle = RectangleObstacle_misses w h ls sf' vehicle"
  using assms by (simp add: RectangleObstacle_misses_def Let_def)

text \<open>
  C6. The checked computation of the rectangle's query has a result on every input: no
  division by \<^verbatim>\<open>ld.z\<close> is reached with a zero divisor. When the localized forward
  direction has a zero Z component, the result is the incoming record with
  \<^verbatim>\<open>intersect\<close> set to false.
\<close>

theorem RectangleObstacle_division_guarded:
  "(\<exists>res. RectangleObstacle_findIntersection_checked width height ls sf vehicle prev = Some res)
   \<and> (vz (localizeDirection ls (forward vehicle)) = 0 \<longrightarrow>
        RectangleObstacle_findIntersection_checked width height ls sf vehicle prev
          = Some (prev\<lparr>intersect := False\<rparr>))"
proof
  show "\<exists>res. RectangleObstacle_findIntersection_checked width height ls sf vehicle prev = Some res"
    by (simp add: RectangleObstacle_find_Some)
  show "vz (localizeDirection ls (forward vehicle)) = 0 \<longrightarrow>
        RectangleObstacle_findIntersection_checked width height ls sf vehicle prev
          = Some (prev\<lparr>intersect := False\<rparr>)"
    by (simp add: RectangleObstacle_findIntersection_checked_def Let_def dot_def Vec3_forward_def)
qed

theorem RectangleObstacle_division_guarded_witness:
  "RectangleObstacle_findIntersection_checked 10 10 parallelRectangle both (vehicleZ 1 0 1) noHit
     = Some (noHit\<lparr>intersect := False\<rparr>)"
proof -
  have "vz (localizeDirection parallelRectangle (forward (vehicleZ 1 0 1))) = 0"
    by (simp add: localizeDirection_def parallelRectangle_def vehicleZ_def dot_def)
  with RectangleObstacle_division_guarded [of 10 10 parallelRectangle both "vehicleZ 1 0 1" noHit]
  show ?thesis by blast
qed

section \<open>The group scan\<close>

lemma sameResult_refl: "sameResult a a"
  by (simp add: sameResult_def)

lemma SphericalObstacle_sameResult:
  "sameResult (SphericalObstacle_findIntersectionWithVehiclePath r c sf vehicle prev)
              (SphericalObstacle_findIntersectionWithVehiclePath r c sf vehicle prev')"
  by (simp add: sameResult_def SphericalObstacle_findIntersectionWithVehiclePath_def Let_def)

lemma RectangleObstacle_sameResult:
  "sameResult (RectangleObstacle_findIntersectionWithVehiclePath w h ls sf vehicle prev)
              (RectangleObstacle_findIntersectionWithVehiclePath w h ls sf vehicle prev')"
  by (simp add: sameResult_def RectangleObstacle_find_unfold Let_def)

lemma scanObstacles_sameResult:
  assumes "\<forall>ob \<in> set obs. \<forall>p p'. sameResult (findIntersectionWithVehiclePath sfd fresh ob vehicle p)
                                          (findIntersectionWithVehiclePath sfd fresh ob vehicle p')"
    and "sameResult nearest nearest'"
  shows "sameResult (fst (scanObstacles sfd fresh vehicle obs nearest nxt))
                    (fst (scanObstacles sfd fresh vehicle obs nearest' nxt'))"
  using assms
proof (induction obs arbitrary: nearest nearest' nxt nxt')
  case Nil
  then show ?case by simp
next
  case (Cons ob obs)
  let ?a = "findIntersectionWithVehiclePath sfd fresh ob vehicle nxt"
  let ?b = "findIntersectionWithVehiclePath sfd fresh ob vehicle nxt'"
  let ?n = "if \<not> intersect nearest \<or> (intersect ?a \<and> distance ?a < distance nearest)
            then ?a else nearest"
  let ?n' = "if \<not> intersect nearest' \<or> (intersect ?b \<and> distance ?b < distance nearest')
            then ?b else nearest'"
  have ab: "sameResult ?a ?b" using Cons.prems(1) by simp
  have "sameResult ?n ?n'"
  proof (cases "intersect nearest \<or> intersect nearest'")
    case True
    with Cons.prems(2) have e: "nearest = nearest'" and i: "intersect nearest'"
      unfolding sameResult_def by blast+
    show ?thesis
    proof (cases "intersect ?a \<or> intersect ?b")
      case True
      with ab have "?a = ?b" unfolding sameResult_def by blast
      with e show ?thesis by (simp add: sameResult_refl)
    next
      case False
      with e i show ?thesis by (simp add: sameResult_refl)
    qed
  next
    case False
    with ab show ?thesis by simp
  qed
  moreover have "\<forall>ob \<in> set obs. \<forall>p p'.
      sameResult (findIntersectionWithVehiclePath sfd fresh ob vehicle p)
                 (findIntersectionWithVehiclePath sfd fresh ob vehicle p')"
    using Cons.prems(1) by simp
  ultimately have "sameResult (fst (scanObstacles sfd fresh vehicle obs ?n ?a))
                              (fst (scanObstacles sfd fresh vehicle obs ?n' ?b))"
    by (rule Cons.IH [rotated])
  then show ?case by (simp add: Let_def)
qed

lemma set_BoxObstacle_faces:
  "ob \<in> set (BoxObstacle_faces sfd w h d ls) \<Longrightarrow> \<exists>w' h' ls'. ob = RectangleObstacle w' h' ls' sfd"
  by (auto simp add: BoxObstacle_faces_def Let_def)

lemma findIntersectionWithVehiclePath_sameResult:
  "sameResult (findIntersectionWithVehiclePath sfd fresh ob vehicle p)
              (findIntersectionWithVehiclePath sfd fresh ob vehicle p')"
proof (cases ob)
  case (SphericalObstacle r c sf)
  then show ?thesis by (simp add: SphericalObstacle_sameResult)
next
  case (RectangleObstacle w h ls sf)
  then show ?thesis by (simp add: RectangleObstacle_sameResult)
next
  case (BoxObstacle w h d ls sf)
  have faces: "\<forall>x \<in> set (BoxObstacle_faces sfd w h d ls). \<forall>p p'.
      sameResult (findIntersectionWithVehiclePath sfd fresh x vehicle p)
                 (findIntersectionWithVehiclePath sfd fresh x vehicle p')"
    by (auto dest!: set_BoxObstacle_faces simp add: RectangleObstacle_sameResult)
  have "sameResult (p\<lparr>intersect := False\<rparr>) (p'\<lparr>intersect := False\<rparr>)"
    by (simp add: sameResult_def)
  with faces have "sameResult
      (fst (scanObstacles sfd fresh vehicle (BoxObstacle_faces sfd w h d ls)
              (p\<lparr>intersect := False\<rparr>) (fresh\<lparr>intersect := False\<rparr>)))
      (fst (scanObstacles sfd fresh vehicle (BoxObstacle_faces sfd w h d ls)
              (p'\<lparr>intersect := False\<rparr>) (fresh\<lparr>intersect := False\<rparr>)))"
    by (rule scanObstacles_sameResult)
  with BoxObstacle show ?thesis by simp
qed

lemma find_intersect_eq:
  "intersect (findIntersectionWithVehiclePath sfd fresh ob vehicle p)
     = intersect (findIntersectionWithVehiclePath sfd fresh ob vehicle p')"
  using findIntersectionWithVehiclePath_sameResult [of sfd fresh ob vehicle p p']
  unfolding sameResult_def by metis

lemma find_eq:
  "intersect (findIntersectionWithVehiclePath sfd fresh ob vehicle p)
     \<Longrightarrow> findIntersectionWithVehiclePath sfd fresh ob vehicle p
         = findIntersectionWithVehiclePath sfd fresh ob vehicle p'"
  using findIntersectionWithVehiclePath_sameResult [of sfd fresh ob vehicle p p']
  unfolding sameResult_def by blast

lemma selected_here:
  assumes "intersect (report ob)"
    and "\<forall>x \<in> set obs. intersect (report x) \<longrightarrow> distance (report ob) \<le> distance (report x)"
  shows "selected report (ob # obs) (report ob)"
  unfolding selected_def
  using assms by (intro exI [of _ "[]"] exI [of _ ob] exI [of _ obs]) simp

lemma selected_later:
  assumes "selected report obs res"
    and "intersect (report ob) \<longrightarrow> distance res < distance (report ob)"
  shows "selected report (ob # obs) res"
proof -
  from assms(1) obtain before x after where
    d: "obs = before @ x # after" and i: "intersect (report x)" and r: "res = report x"
    and b: "\<forall>y \<in> set before. intersect (report y) \<longrightarrow> distance (report x) < distance (report y)"
    and a: "\<forall>y \<in> set after. intersect (report y) \<longrightarrow> distance (report x) \<le> distance (report y)"
    unfolding selected_def by blast
  have "ob # obs = (ob # before) @ x # after" using d by simp
  moreover have "\<forall>y \<in> set (ob # before).
      intersect (report y) \<longrightarrow> distance (report x) < distance (report y)"
    using b assms(2) r by simp
  ultimately show ?thesis
    unfolding selected_def using i r a by blast
qed

lemma scanObstacles_found:
  assumes "intersect nearest"
  shows "(fst (scanObstacles sfd fresh vehicle obs nearest nxt) = nearest
          \<and> (\<forall>x \<in> set obs. intersect (findIntersectionWithVehiclePath sfd fresh x vehicle p)
                \<longrightarrow> distance nearest \<le> distance (findIntersectionWithVehiclePath sfd fresh x vehicle p)))
       \<or> (selected (\<lambda>x. findIntersectionWithVehiclePath sfd fresh x vehicle p) obs
             (fst (scanObstacles sfd fresh vehicle obs nearest nxt))
          \<and> distance (fst (scanObstacles sfd fresh vehicle obs nearest nxt)) < distance nearest)"
  using assms
proof (induction obs arbitrary: nearest nxt)
  case Nil
  then show ?case by simp
next
  case (Cons ob obs)
  let ?report = "\<lambda>x. findIntersectionWithVehiclePath sfd fresh x vehicle p"
  let ?a = "findIntersectionWithVehiclePath sfd fresh ob vehicle nxt"
  show ?case
  proof (cases "intersect ?a \<and> distance ?a < distance nearest")
    case True
    then have a: "?a = ?report ob" by (simp add: find_eq [of sfd fresh ob vehicle nxt p])
    have step: "scanObstacles sfd fresh vehicle (ob # obs) nearest nxt
                  = scanObstacles sfd fresh vehicle obs ?a ?a"
      using True by (simp add: Let_def)
    from True have "intersect ?a" by simp
    from Cons.IH [OF this, of ?a] show ?thesis
    proof
      assume h: "fst (scanObstacles sfd fresh vehicle obs ?a ?a) = ?a
          \<and> (\<forall>x \<in> set obs. intersect (?report x) \<longrightarrow> distance ?a \<le> distance (?report x))"
      then have "selected ?report (ob # obs) (?report ob)"
        using True a by (intro selected_here) simp_all
      with h True a step show ?thesis by simp
    next
      assume h: "selected ?report obs (fst (scanObstacles sfd fresh vehicle obs ?a ?a))
          \<and> distance (fst (scanObstacles sfd fresh vehicle obs ?a ?a)) < distance ?a"
      then have "selected ?report (ob # obs) (fst (scanObstacles sfd fresh vehicle obs ?a ?a))"
        using a by (intro selected_later) simp_all
      with h True step show ?thesis by simp
    qed
  next
    case False
    have step: "scanObstacles sfd fresh vehicle (ob # obs) nearest nxt
                  = scanObstacles sfd fresh vehicle obs nearest ?a"
      using False Cons.prems by (auto simp add: Let_def)
    have ge: "intersect (?report ob) \<longrightarrow> distance nearest \<le> distance (?report ob)"
    proof
      assume i: "intersect (?report ob)"
      then have "?report ob = ?a" by (rule find_eq)
      with i False show "distance nearest \<le> distance (?report ob)" by simp
    qed
    from Cons.IH [OF Cons.prems, of ?a] show ?thesis
    proof
      assume "fst (scanObstacles sfd fresh vehicle obs nearest ?a) = nearest
          \<and> (\<forall>x \<in> set obs. intersect (?report x) \<longrightarrow> distance nearest \<le> distance (?report x))"
      with ge step show ?thesis by simp
    next
      assume h: "selected ?report obs (fst (scanObstacles sfd fresh vehicle obs nearest ?a))
          \<and> distance (fst (scanObstacles sfd fresh vehicle obs nearest ?a)) < distance nearest"
      then have "selected ?report (ob # obs) (fst (scanObstacles sfd fresh vehicle obs nearest ?a))"
        using ge by (intro selected_later) auto
      with h step show ?thesis by simp
    qed
  qed
qed

lemma scanObstacles_none:
  assumes "\<not> intersect nearest"
  shows "if \<forall>x \<in> set obs. \<not> intersect (findIntersectionWithVehiclePath sfd fresh x vehicle p)
         then \<not> intersect (fst (scanObstacles sfd fresh vehicle obs nearest nxt))
         else selected (\<lambda>x. findIntersectionWithVehiclePath sfd fresh x vehicle p) obs
                (fst (scanObstacles sfd fresh vehicle obs nearest nxt))"
  using assms
proof (induction obs arbitrary: nearest nxt)
  case Nil
  then show ?case by simp
next
  case (Cons ob obs)
  let ?report = "\<lambda>x. findIntersectionWithVehiclePath sfd fresh x vehicle p"
  let ?a = "findIntersectionWithVehiclePath sfd fresh ob vehicle nxt"
  have step: "scanObstacles sfd fresh vehicle (ob # obs) nearest nxt
                = scanObstacles sfd fresh vehicle obs ?a ?a"
    using Cons.prems by (simp add: Let_def)
  show ?case
  proof (cases "intersect ?a")
    case True
    then have a: "?a = ?report ob" by (rule find_eq)
    from scanObstacles_found [OF True, where sfd = sfd and fresh = fresh and obs = obs
        and vehicle = vehicle and p = p and nxt = ?a]
    have "selected ?report (ob # obs) (fst (scanObstacles sfd fresh vehicle obs ?a ?a))"
    proof
      assume h: "fst (scanObstacles sfd fresh vehicle obs ?a ?a) = ?a
          \<and> (\<forall>x \<in> set obs. intersect (?report x) \<longrightarrow> distance ?a \<le> distance (?report x))"
      then have "selected ?report (ob # obs) (?report ob)"
        using True a by (intro selected_here) simp_all
      with h a show ?thesis by simp
    next
      assume h: "selected ?report obs (fst (scanObstacles sfd fresh vehicle obs ?a ?a))
          \<and> distance (fst (scanObstacles sfd fresh vehicle obs ?a ?a)) < distance ?a"
      then show ?thesis using a by (intro selected_later) simp_all
    qed
    moreover have "intersect (?report ob)" using True a by simp
    ultimately show ?thesis using step by auto
  next
    case False
    then have n: "\<not> intersect (?report ob)"
      using find_intersect_eq [of sfd fresh ob vehicle nxt p] by simp
    from Cons.IH [OF False, of ?a]
    show ?thesis
    proof (cases "\<forall>x \<in> set obs. \<not> intersect (?report x)")
      case True
      with Cons.IH [OF False, of ?a] n step show ?thesis by simp
    next
      case False
      with Cons.IH [OF \<open>\<not> intersect ?a\<close>, of ?a]
      have "selected ?report obs (fst (scanObstacles sfd fresh vehicle obs ?a ?a))" by simp
      then have "selected ?report (ob # obs) (fst (scanObstacles sfd fresh vehicle obs ?a ?a))"
        using n by (intro selected_later) simp_all
      with False step show ?thesis by auto
    qed
  qed
qed

lemma scanObstacles_report:
  assumes "\<not> intersect nearest"
    and "intersect (fst (scanObstacles sfd fresh vehicle obs nearest nxt))"
  shows "\<exists>ob \<in> set obs. intersect (findIntersectionWithVehiclePath sfd fresh ob vehicle p)
           \<and> fst (scanObstacles sfd fresh vehicle obs nearest nxt)
               = findIntersectionWithVehiclePath sfd fresh ob vehicle p"
proof -
  let ?report = "\<lambda>x. findIntersectionWithVehiclePath sfd fresh x vehicle p"
  let ?res = "fst (scanObstacles sfd fresh vehicle obs nearest nxt)"
  from scanObstacles_none [OF assms(1), where sfd = sfd and fresh = fresh and obs = obs
      and vehicle = vehicle and p = p and nxt = nxt] assms(2)
  have "selected ?report obs ?res"
    by (simp split: if_splits)
  then obtain before ob after where "obs = before @ ob # after" "intersect (?report ob)"
      "?res = ?report ob"
    unfolding selected_def by blast
  then show ?thesis by auto
qed

lemma scanObstacles_single_candidate:
  assumes "\<not> intersect nearest" and "face \<in> set obs"
    and "\<forall>x \<in> set obs. x \<noteq> face \<longrightarrow>
           intersect (findIntersectionWithVehiclePath sfd fresh x vehicle p) \<longrightarrow>
             intersect (findIntersectionWithVehiclePath sfd fresh face vehicle p)
             \<and> distance (findIntersectionWithVehiclePath sfd fresh face vehicle p)
                 < distance (findIntersectionWithVehiclePath sfd fresh x vehicle p)"
  shows "sameResult (fst (scanObstacles sfd fresh vehicle obs nearest nxt))
                    (findIntersectionWithVehiclePath sfd fresh face vehicle p)"
proof -
  let ?report = "\<lambda>x. findIntersectionWithVehiclePath sfd fresh x vehicle p"
  let ?res = "fst (scanObstacles sfd fresh vehicle obs nearest nxt)"
  note scan = scanObstacles_none [OF assms(1), where sfd = sfd and fresh = fresh and obs = obs
      and vehicle = vehicle and p = p and nxt = nxt]
  show ?thesis
  proof (cases "\<forall>x \<in> set obs. \<not> intersect (?report x)")
    case True
    with scan have "\<not> intersect ?res" by simp
    moreover from True assms(2) have "\<not> intersect (?report face)" by blast
    ultimately show ?thesis by (simp add: sameResult_def)
  next
    case False
    with scan have "selected ?report obs ?res" by simp
    then obtain before ob after where d: "obs = before @ ob # after"
      and i: "intersect (?report ob)" and r: "?res = ?report ob"
      and b: "\<forall>x \<in> set before. intersect (?report x) \<longrightarrow> distance (?report ob) < distance (?report x)"
      and a: "\<forall>x \<in> set after. intersect (?report x) \<longrightarrow> distance (?report ob) \<le> distance (?report x)"
      unfolding selected_def by blast
    have "ob = face"
    proof (rule ccontr)
      assume ne: "ob \<noteq> face"
      from d have "ob \<in> set obs" by simp
      with assms(3) ne i have fi: "intersect (?report face)"
        and lt: "distance (?report face) < distance (?report ob)" by blast+
      from assms(2) d ne have "face \<in> set before \<or> face \<in> set after" by auto
      with a b fi have "distance (?report ob) \<le> distance (?report face)" by fastforce
      with lt show False by simp
    qed
    with r show ?thesis by (simp add: sameResult_refl)
  qed
qed

text \<open>
  C1. The report of an obstacle is what its query returns; whether it intersects, and
  the whole record when it does, do not depend on the record \<open>p\<close> passed in. If no
  obstacle of the group reports an intersection, \<^verbatim>\<open>nearest.intersect\<close> is false after
  the scan. Otherwise \<^verbatim>\<open>nearest\<close> is the full report of an intersecting obstacle of
  the group whose distance is strictly less than that of every intersecting obstacle
  before it and at most that of every intersecting obstacle after it: a nearest one,
  and among equally near ones the first in group order.
\<close>

theorem firstPathIntersectionWithObstacleGroup_nearest:
  "if \<forall>ob \<in> set obstacles. \<not> intersect (findIntersectionWithVehiclePath sfd fresh ob vehicle p)
   then \<not> intersect (fst (firstPathIntersectionWithObstacleGroup sfd fresh vehicle obstacles nearest next))
   else \<exists>before ob after.
          obstacles = before @ ob # after
        \<and> intersect (findIntersectionWithVehiclePath sfd fresh ob vehicle p)
        \<and> fst (firstPathIntersectionWithObstacleGroup sfd fresh vehicle obstacles nearest next)
            = findIntersectionWithVehiclePath sfd fresh ob vehicle p
        \<and> (\<forall>x \<in> set before. intersect (findIntersectionWithVehiclePath sfd fresh x vehicle p)
              \<longrightarrow> distance (findIntersectionWithVehiclePath sfd fresh ob vehicle p)
                   < distance (findIntersectionWithVehiclePath sfd fresh x vehicle p))
        \<and> (\<forall>x \<in> set after. intersect (findIntersectionWithVehiclePath sfd fresh x vehicle p)
              \<longrightarrow> distance (findIntersectionWithVehiclePath sfd fresh ob vehicle p)
                   \<le> distance (findIntersectionWithVehiclePath sfd fresh x vehicle p))"
proof -
  have "\<not> intersect (nearest\<lparr>intersect := False\<rparr>)" by simp
  from scanObstacles_none [OF this, where sfd = sfd and fresh = fresh and obs = obstacles
      and vehicle = vehicle and p = p and nxt = "next\<lparr>intersect := False\<rparr>"]
  have h: "if \<forall>x \<in> set obstacles. \<not> intersect (findIntersectionWithVehiclePath sfd fresh x vehicle p)
     then \<not> intersect (fst (firstPathIntersectionWithObstacleGroup sfd fresh vehicle obstacles nearest next))
     else selected (\<lambda>x. findIntersectionWithVehiclePath sfd fresh x vehicle p) obstacles
            (fst (firstPathIntersectionWithObstacleGroup sfd fresh vehicle obstacles nearest next))"
    by simp
  show ?thesis
  proof (cases "\<forall>x \<in> set obstacles. \<not> intersect (findIntersectionWithVehiclePath sfd fresh x vehicle p)")
    case True
    with h show ?thesis by simp
  next
    case False
    with h have "selected (\<lambda>x. findIntersectionWithVehiclePath sfd fresh x vehicle p) obstacles
            (fst (firstPathIntersectionWithObstacleGroup sfd fresh vehicle obstacles nearest next))"
      by simp
    then show ?thesis unfolding if_not_P [OF False] selected_def .
  qed
qed

theorem firstPathIntersectionWithObstacleGroup_nearest_witness:
  "distance (fst (firstPathIntersectionWithObstacleGroup outside noHit (vehicleZ 1 0 1)
       [SphericalObstacle 1 (Vec3 0 0 11) outside, SphericalObstacle 1 (Vec3 0 0 6) outside,
        SphericalObstacle 1 (Vec3 0 0 (- 6)) outside]
       noHit noHit)) = 5"
proof -
  let ?far = "SphericalObstacle 1 (Vec3 0 0 11) outside"
  let ?near = "SphericalObstacle 1 (Vec3 0 0 6) outside"
  let ?behind = "SphericalObstacle 1 (Vec3 0 0 (- 6)) outside"
  let ?report = "\<lambda>ob. findIntersectionWithVehiclePath outside noHit ob (vehicleZ 1 0 1) noHit"
  let ?res = "fst (firstPathIntersectionWithObstacleGroup outside noHit (vehicleZ 1 0 1)
       [?far, ?near, ?behind] noHit noHit)"
  have far: "intersect (?report ?far)" "distance (?report ?far) = 10"
    by (simp_all add: SphericalObstacle_on_axis)
  have near: "intersect (?report ?near)" "distance (?report ?near) = 5"
    by (simp_all add: SphericalObstacle_on_axis)
  have behind: "\<not> intersect (?report ?behind)"
    by (simp add: SphericalObstacle_on_axis)
  have "\<not> (\<forall>ob \<in> set [?far, ?near, ?behind]. \<not> intersect (?report ob))"
    using far by simp
  with firstPathIntersectionWithObstacleGroup_nearest
    [of "[?far, ?near, ?behind]" outside noHit "vehicleZ 1 0 1" noHit noHit noHit]
  obtain before ob after where d: "[?far, ?near, ?behind] = before @ ob # after"
    and i: "intersect (?report ob)" and r: "?res = ?report ob"
    and b: "\<forall>x \<in> set before. intersect (?report x) \<longrightarrow> distance (?report ob) < distance (?report x)"
    and a: "\<forall>x \<in> set after. intersect (?report x) \<longrightarrow> distance (?report ob) \<le> distance (?report x)"
    unfolding if_not_P [OF \<open>\<not> (\<forall>ob \<in> set [?far, ?near, ?behind]. \<not> intersect (?report ob))\<close>]
    by blast
  from d have "(before = [] \<and> ob = ?far \<and> after = [?near, ?behind])
      \<or> (before = [?far] \<and> ob = ?near \<and> after = [?behind])
      \<or> (before = [?far, ?near] \<and> ob = ?behind \<and> after = [])"
    by (auto simp add: Cons_eq_append_conv)
  then have "ob = ?near"
  proof (elim disjE conjE)
    assume "ob = ?far" "after = [?near, ?behind]"
    with a far near show ?thesis by simp
  next
    assume "ob = ?near"
    then show ?thesis .
  next
    assume "ob = ?behind"
    with i behind show ?thesis by simp
  qed
  with r near show ?thesis by simp
qed

text \<open>
  C7 (as the code has it). One iteration of the scan is the scan of a one-element
  group, and a scan continues from the two records its first iteration leaves. An
  obstacle that reports no intersection leaves \<^verbatim>\<open>nearest.intersect\<close> as it was, and
  leaves \<^verbatim>\<open>nearest\<close> unchanged once an intersection has been stored in it. While no
  intersection has been stored, the iteration copies the scratch record \<^verbatim>\<open>next\<close>
  into \<^verbatim>\<open>nearest\<close>.
\<close>

theorem scanObstacles_no_intersection:
  assumes "\<not> intersect (findIntersectionWithVehiclePath sfd fresh ob vehicle next)"
  shows "(intersect (fst (scanObstacles sfd fresh vehicle [ob] nearest next)) \<longleftrightarrow> intersect nearest)
       \<and> (intersect nearest \<longrightarrow> fst (scanObstacles sfd fresh vehicle [ob] nearest next) = nearest)
       \<and> (\<not> intersect nearest \<longrightarrow>
            fst (scanObstacles sfd fresh vehicle [ob] nearest next)
              = findIntersectionWithVehiclePath sfd fresh ob vehicle next)
       \<and> scanObstacles sfd fresh vehicle (ob # obs) nearest next
           = scanObstacles sfd fresh vehicle obs
               (fst (scanObstacles sfd fresh vehicle [ob] nearest next))
               (snd (scanObstacles sfd fresh vehicle [ob] nearest next))"
  using assms by (simp add: Let_def)

text \<open>
  C7 as stated fails: before the first intersection is found, an obstacle that reports
  no intersection does replace \<^verbatim>\<open>nearest\<close>, by the scratch record.
\<close>

theorem scanObstacles_no_intersection_counterexample:
  "\<not> intersect (findIntersectionWithVehiclePath outside noHit
        (SphericalObstacle 1 (Vec3 0 0 (- 6)) outside) (vehicleZ 1 0 1) noHit)
   \<and> fst (scanObstacles outside noHit (vehicleZ 1 0 1)
        [SphericalObstacle 1 (Vec3 0 0 (- 6)) outside]
        ((hitAt 7 (Vec3 1 0 0))\<lparr>intersect := False\<rparr>) noHit)
      \<noteq> (hitAt 7 (Vec3 1 0 0))\<lparr>intersect := False\<rparr>"
  by (simp add: SphericalObstacle_on_axis Let_def) (simp add: hitAt_def noHit_def)

theorem scanObstacles_no_intersection_witness:
  "fst (scanObstacles outside noHit (vehicleZ 1 0 1)
        [SphericalObstacle 1 (Vec3 0 0 (- 6)) outside] (hitAt 7 (Vec3 1 0 0)) noHit)
      = hitAt 7 (Vec3 1 0 0)"
proof -
  have n: "\<not> intersect (findIntersectionWithVehiclePath outside noHit
        (SphericalObstacle 1 (Vec3 0 0 (- 6)) outside) (vehicleZ 1 0 1) noHit)"
    by (simp add: SphericalObstacle_on_axis)
  have "intersect (hitAt 7 (Vec3 1 0 0))" by (simp add: hitAt_def)
  with scanObstacles_no_intersection [OF n, of "hitAt 7 (Vec3 1 0 0)"]
  show ?thesis by blast
qed

section \<open>The box\<close>

lemma BoxObstacle_report:
  assumes "intersect (findIntersectionWithVehiclePath sfd fresh (BoxObstacle w h d ls sf) vehicle prev)"
  shows "\<exists>face \<in> set (BoxObstacle_faces sfd w h d ls).
           findIntersectionWithVehiclePath sfd fresh (BoxObstacle w h d ls sf) vehicle prev
             = findIntersectionWithVehiclePath sfd fresh face vehicle p
           \<and> intersect (findIntersectionWithVehiclePath sfd fresh face vehicle p)"
proof -
  have n: "\<not> intersect (prev\<lparr>intersect := False\<rparr>)" by simp
  from assms have "intersect (fst (scanObstacles sfd fresh vehicle (BoxObstacle_faces sfd w h d ls)
      (prev\<lparr>intersect := False\<rparr>) (fresh\<lparr>intersect := False\<rparr>)))"
    by simp
  from scanObstacles_report [OF n this, of p] show ?thesis by auto
qed

lemma opposite_face:
  assumes ldk: "localizeDirection kf (forward vehicle) = Vec3 0 0 (- 1)"
    and ldo: "localizeDirection opf (forward vehicle) = Vec3 0 0 1"
    and lpo: "localizePosition opf (position vehicle) =
        Vec3 (- vx (localizePosition kf (position vehicle)))
             (vy (localizePosition kf (position vehicle)))
             (- vz (localizePosition kf (position vehicle)) - D)"
    and D: "0 < D" and front: "0 < vz (localizePosition kf (position vehicle))"
    and t: "sfd \<noteq> inside"
  shows "\<not> RectangleObstacle_misses W H opf sfd vehicle \<longrightarrow>
        \<not> RectangleObstacle_misses W H kf sfd vehicle
      \<and> distance (RectangleObstacle_findIntersectionWithVehiclePath W H kf sfd vehicle p)
          < distance (RectangleObstacle_findIntersectionWithVehiclePath W H opf sfd vehicle p')"
proof
  have n1: "(- 1::real) \<noteq> 0" and p1: "(1::real) \<noteq> 0" by simp_all
  assume mo: "\<not> RectangleObstacle_misses W H opf sfd vehicle"
  from mo front D t have mk: "\<not> RectangleObstacle_misses W H kf sfd vehicle"
    unfolding RectangleObstacle_axis_misses [OF ldk n1] RectangleObstacle_axis_misses [OF ldo p1]
      Let_def lpo Vec3.sel
    by auto
  from front D show "\<not> RectangleObstacle_misses W H kf sfd vehicle
      \<and> distance (RectangleObstacle_findIntersectionWithVehiclePath W H kf sfd vehicle p)
          < distance (RectangleObstacle_findIntersectionWithVehiclePath W H opf sfd vehicle p')"
    unfolding RectangleObstacle_axis_distance [OF ldk mk]
      RectangleObstacle_axis_distance [OF ldo mo] lpo Vec3.sel
    using mk by simp
qed

lemma BoxObstacle_front_face:
  assumes o: "orthonormal ls" and d: "0 < d" and t: "sfd \<noteq> inside"
    and fwd: "forward vehicle = - forward ls"
    and front: "0 < vz (localizePosition
        \<lparr>side = side ls, up = up ls, forward = forward ls, position = position ls + times_Vec3 (forward ls) (0.5 * d)\<rparr>
        (position vehicle))"
  shows "\<forall>x \<in> set (BoxObstacle_faces sfd w h d ls).
           x \<noteq> RectangleObstacle w h
        \<lparr>side = side ls, up = up ls, forward = forward ls, position = position ls + times_Vec3 (forward ls) (0.5 * d)\<rparr> sfd \<longrightarrow>
           intersect (findIntersectionWithVehiclePath sfd fresh x vehicle p) \<longrightarrow>
             intersect (findIntersectionWithVehiclePath sfd fresh
               (RectangleObstacle w h
        \<lparr>side = side ls, up = up ls, forward = forward ls, position = position ls + times_Vec3 (forward ls) (0.5 * d)\<rparr> sfd)
               vehicle p)
             \<and> distance (findIntersectionWithVehiclePath sfd fresh
               (RectangleObstacle w h
        \<lparr>side = side ls, up = up ls, forward = forward ls, position = position ls + times_Vec3 (forward ls) (0.5 * d)\<rparr> sfd)
               vehicle p)
                 < distance (findIntersectionWithVehiclePath sfd fresh x vehicle p)"
proof -
  note od = orthonormal_dots [OF o]
  let ?k = "\<lparr>side = side ls, up = up ls, forward = forward ls, position = position ls + times_Vec3 (forward ls) (0.5 * d)\<rparr>"
  let ?o = "\<lparr>side = - side ls, up = up ls, forward = - forward ls, position = position ls - times_Vec3 (forward ls) (0.5 * d)\<rparr>"
  have ldk: "localizeDirection ?k (forward vehicle) = Vec3 0 0 (- 1)"
    by (simp add: localizeDirection_def fwd dot_uminus_left dot_uminus_right od)
  have ldo: "localizeDirection ?o (forward vehicle) = Vec3 0 0 1"
    by (simp add: localizeDirection_def fwd dot_uminus_left dot_uminus_right od)
  have lpo: "localizePosition ?o (position vehicle) =
      Vec3 (- vx (localizePosition ?k (position vehicle)))
           (vy (localizePosition ?k (position vehicle)))
           (- vz (localizePosition ?k (position vehicle)) - d)"
    by (simp add: localizePosition_def localizeDirection_def dot_minus_plus dot_minus_minus
        dot_times_Vec3 dot_uminus_right od)
  have par: "\<not> intersect (findIntersectionWithVehiclePath sfd fresh
      (RectangleObstacle a b \<lparr>side = x, up = y, forward = z, position = q\<rparr> sfd) vehicle p)"
    if "dot (forward ls) z = 0" for a b x y z q
  proof -
    from that have "dot (forward vehicle) z = 0" by (simp add: fwd dot_uminus_left)
    then have "RectangleObstacle_misses a b \<lparr>side = x, up = y, forward = z, position = q\<rparr>
        sfd vehicle"
      by (intro RectangleObstacle_parallel) simp
    then show ?thesis by (simp add: RectangleObstacle_intersect_iff)
  qed
  have opp: "intersect (findIntersectionWithVehiclePath sfd fresh
        (RectangleObstacle w h
        \<lparr>side = - side ls, up = up ls, forward = - forward ls, position = position ls - times_Vec3 (forward ls) (0.5 * d)\<rparr> sfd)
        vehicle p) \<longrightarrow>
      intersect (findIntersectionWithVehiclePath sfd fresh
        (RectangleObstacle w h
        \<lparr>side = side ls, up = up ls, forward = forward ls, position = position ls + times_Vec3 (forward ls) (0.5 * d)\<rparr> sfd)
        vehicle p)
      \<and> distance (findIntersectionWithVehiclePath sfd fresh
        (RectangleObstacle w h
        \<lparr>side = side ls, up = up ls, forward = forward ls, position = position ls + times_Vec3 (forward ls) (0.5 * d)\<rparr> sfd)
        vehicle p)
        < distance (findIntersectionWithVehiclePath sfd fresh
        (RectangleObstacle w h
        \<lparr>side = - side ls, up = up ls, forward = - forward ls, position = position ls - times_Vec3 (forward ls) (0.5 * d)\<rparr> sfd)
        vehicle p)"
    using opposite_face [OF ldk ldo lpo d front t, of w h p p]
    by (simp add: RectangleObstacle_intersect_iff)
  have perp1: "\<not> intersect (findIntersectionWithVehiclePath sfd fresh
        (RectangleObstacle d h
        \<lparr>side = - forward ls, up = up ls, forward = side ls, position = position ls + times_Vec3 (side ls) (0.5 * w)\<rparr> sfd)
        vehicle p)"
    by (rule par) (simp add: od dot_uminus_right)
  have perp2: "\<not> intersect (findIntersectionWithVehiclePath sfd fresh
        (RectangleObstacle d h
        \<lparr>side = forward ls, up = up ls, forward = - side ls, position = position ls - times_Vec3 (side ls) (0.5 * w)\<rparr> sfd)
        vehicle p)"
    by (rule par) (simp add: od dot_uminus_right)
  have perp3: "\<not> intersect (findIntersectionWithVehiclePath sfd fresh
        (RectangleObstacle w d
        \<lparr>side = side ls, up = - forward ls, forward = up ls, position = position ls + times_Vec3 (up ls) (0.5 * h)\<rparr> sfd)
        vehicle p)"
    by (rule par) (simp add: od dot_uminus_right)
  have perp4: "\<not> intersect (findIntersectionWithVehiclePath sfd fresh
        (RectangleObstacle w d
        \<lparr>side = - side ls, up = - forward ls, forward = - up ls, position = position ls - times_Vec3 (up ls) (0.5 * h)\<rparr> sfd)
        vehicle p)"
    by (rule par) (simp add: od dot_uminus_right)
  show ?thesis
  proof (intro ballI impI)
    fix x
    assume x: "x \<in> set (BoxObstacle_faces sfd w h d ls)"
      and ne: "x \<noteq> RectangleObstacle w h
        \<lparr>side = side ls, up = up ls, forward = forward ls, position = position ls + times_Vec3 (forward ls) (0.5 * d)\<rparr> sfd"
      and i: "intersect (findIntersectionWithVehiclePath sfd fresh x vehicle p)"
    from x have "x = RectangleObstacle w h
        \<lparr>side = side ls, up = up ls, forward = forward ls, position = position ls + times_Vec3 (forward ls) (0.5 * d)\<rparr> sfd
        \<or> x = RectangleObstacle w h
        \<lparr>side = - side ls, up = up ls, forward = - forward ls, position = position ls - times_Vec3 (forward ls) (0.5 * d)\<rparr> sfd
        \<or> x = RectangleObstacle d h
        \<lparr>side = - forward ls, up = up ls, forward = side ls, position = position ls + times_Vec3 (side ls) (0.5 * w)\<rparr> sfd
        \<or> x = RectangleObstacle d h
        \<lparr>side = forward ls, up = up ls, forward = - side ls, position = position ls - times_Vec3 (side ls) (0.5 * w)\<rparr> sfd
        \<or> x = RectangleObstacle w d
        \<lparr>side = side ls, up = - forward ls, forward = up ls, position = position ls + times_Vec3 (up ls) (0.5 * h)\<rparr> sfd
        \<or> x = RectangleObstacle w d
        \<lparr>side = - side ls, up = - forward ls, forward = - up ls, position = position ls - times_Vec3 (up ls) (0.5 * h)\<rparr> sfd"
      unfolding BoxObstacle_faces_def Let_def
      by (simp only: list.set insert_iff empty_iff simp_thms)
    then show "intersect (findIntersectionWithVehiclePath sfd fresh
               (RectangleObstacle w h
        \<lparr>side = side ls, up = up ls, forward = forward ls, position = position ls + times_Vec3 (forward ls) (0.5 * d)\<rparr> sfd)
               vehicle p)
             \<and> distance (findIntersectionWithVehiclePath sfd fresh
               (RectangleObstacle w h
        \<lparr>side = side ls, up = up ls, forward = forward ls, position = position ls + times_Vec3 (forward ls) (0.5 * d)\<rparr> sfd)
               vehicle p)
                 < distance (findIntersectionWithVehiclePath sfd fresh x vehicle p)"
    proof (elim disjE)
      assume e: "x = RectangleObstacle w h
        \<lparr>side = side ls, up = up ls, forward = forward ls, position = position ls + times_Vec3 (forward ls) (0.5 * d)\<rparr> sfd"
      from ne e show ?thesis by (rule notE)
    next
      assume e: "x = RectangleObstacle w h
        \<lparr>side = - side ls, up = up ls, forward = - forward ls, position = position ls - times_Vec3 (forward ls) (0.5 * d)\<rparr> sfd"
      from opp i [unfolded e] show ?thesis unfolding e by (rule mp)
    next
      assume e: "x = RectangleObstacle d h
        \<lparr>side = - forward ls, up = up ls, forward = side ls, position = position ls + times_Vec3 (side ls) (0.5 * w)\<rparr> sfd"
      from perp1 i [unfolded e] show ?thesis by (rule notE)
    next
      assume e: "x = RectangleObstacle d h
        \<lparr>side = forward ls, up = up ls, forward = - side ls, position = position ls - times_Vec3 (side ls) (0.5 * w)\<rparr> sfd"
      from perp2 i [unfolded e] show ?thesis by (rule notE)
    next
      assume e: "x = RectangleObstacle w d
        \<lparr>side = side ls, up = - forward ls, forward = up ls, position = position ls + times_Vec3 (up ls) (0.5 * h)\<rparr> sfd"
      from perp3 i [unfolded e] show ?thesis by (rule notE)
    next
      assume e: "x = RectangleObstacle w d
        \<lparr>side = - side ls, up = - forward ls, forward = - up ls, position = position ls - times_Vec3 (up ls) (0.5 * h)\<rparr> sfd"
      from perp4 i [unfolded e] show ?thesis by (rule notE)
    qed
  qed
qed

lemma BoxObstacle_back_face:
  assumes o: "orthonormal ls" and d: "0 < d" and t: "sfd \<noteq> inside"
    and fwd: "forward vehicle = forward ls"
    and front: "0 < vz (localizePosition
        \<lparr>side = - side ls, up = up ls, forward = - forward ls, position = position ls - times_Vec3 (forward ls) (0.5 * d)\<rparr>
        (position vehicle))"
  shows "\<forall>x \<in> set (BoxObstacle_faces sfd w h d ls).
           x \<noteq> RectangleObstacle w h
        \<lparr>side = - side ls, up = up ls, forward = - forward ls, position = position ls - times_Vec3 (forward ls) (0.5 * d)\<rparr> sfd \<longrightarrow>
           intersect (findIntersectionWithVehiclePath sfd fresh x vehicle p) \<longrightarrow>
             intersect (findIntersectionWithVehiclePath sfd fresh
               (RectangleObstacle w h
        \<lparr>side = - side ls, up = up ls, forward = - forward ls, position = position ls - times_Vec3 (forward ls) (0.5 * d)\<rparr> sfd)
               vehicle p)
             \<and> distance (findIntersectionWithVehiclePath sfd fresh
               (RectangleObstacle w h
        \<lparr>side = - side ls, up = up ls, forward = - forward ls, position = position ls - times_Vec3 (forward ls) (0.5 * d)\<rparr> sfd)
               vehicle p)
                 < distance (findIntersectionWithVehiclePath sfd fresh x vehicle p)"
proof -
  note od = orthonormal_dots [OF o]
  let ?k = "\<lparr>side = - side ls, up = up ls, forward = - forward ls, position = position ls - times_Vec3 (forward ls) (0.5 * d)\<rparr>"
  let ?o = "\<lparr>side = side ls, up = up ls, forward = forward ls, position = position ls + times_Vec3 (forward ls) (0.5 * d)\<rparr>"
  have ldk: "localizeDirection ?k (forward vehicle) = Vec3 0 0 (- 1)"
    by (simp add: localizeDirection_def fwd dot_uminus_left dot_uminus_right od)
  have ldo: "localizeDirection ?o (forward vehicle) = Vec3 0 0 1"
    by (simp add: localizeDirection_def fwd dot_uminus_left dot_uminus_right od)
  have lpo: "localizePosition ?o (position vehicle) =
      Vec3 (- vx (localizePosition ?k (position vehicle)))
           (vy (localizePosition ?k (position vehicle)))
           (- vz (localizePosition ?k (position vehicle)) - d)"
    by (simp add: localizePosition_def localizeDirection_def dot_minus_plus dot_minus_minus
        dot_times_Vec3 dot_uminus_right od)
  have par: "\<not> intersect (findIntersectionWithVehiclePath sfd fresh
      (RectangleObstacle a b \<lparr>side = x, up = y, forward = z, position = q\<rparr> sfd) vehicle p)"
    if "dot (forward ls) z = 0" for a b x y z q
  proof -
    from that have "dot (forward vehicle) z = 0" by (simp add: fwd dot_uminus_left)
    then have "RectangleObstacle_misses a b \<lparr>side = x, up = y, forward = z, position = q\<rparr>
        sfd vehicle"
      by (intro RectangleObstacle_parallel) simp
    then show ?thesis by (simp add: RectangleObstacle_intersect_iff)
  qed
  have opp: "intersect (findIntersectionWithVehiclePath sfd fresh
        (RectangleObstacle w h
        \<lparr>side = side ls, up = up ls, forward = forward ls, position = position ls + times_Vec3 (forward ls) (0.5 * d)\<rparr> sfd)
        vehicle p) \<longrightarrow>
      intersect (findIntersectionWithVehiclePath sfd fresh
        (RectangleObstacle w h
        \<lparr>side = - side ls, up = up ls, forward = - forward ls, position = position ls - times_Vec3 (forward ls) (0.5 * d)\<rparr> sfd)
        vehicle p)
      \<and> distance (findIntersectionWithVehiclePath sfd fresh
        (RectangleObstacle w h
        \<lparr>side = - side ls, up = up ls, forward = - forward ls, position = position ls - times_Vec3 (forward ls) (0.5 * d)\<rparr> sfd)
        vehicle p)
        < distance (findIntersectionWithVehiclePath sfd fresh
        (RectangleObstacle w h
        \<lparr>side = side ls, up = up ls, forward = forward ls, position = position ls + times_Vec3 (forward ls) (0.5 * d)\<rparr> sfd)
        vehicle p)"
    using opposite_face [OF ldk ldo lpo d front t, of w h p p]
    by (simp add: RectangleObstacle_intersect_iff)
  have perp1: "\<not> intersect (findIntersectionWithVehiclePath sfd fresh
        (RectangleObstacle d h
        \<lparr>side = - forward ls, up = up ls, forward = side ls, position = position ls + times_Vec3 (side ls) (0.5 * w)\<rparr> sfd)
        vehicle p)"
    by (rule par) (simp add: od dot_uminus_right)
  have perp2: "\<not> intersect (findIntersectionWithVehiclePath sfd fresh
        (RectangleObstacle d h
        \<lparr>side = forward ls, up = up ls, forward = - side ls, position = position ls - times_Vec3 (side ls) (0.5 * w)\<rparr> sfd)
        vehicle p)"
    by (rule par) (simp add: od dot_uminus_right)
  have perp3: "\<not> intersect (findIntersectionWithVehiclePath sfd fresh
        (RectangleObstacle w d
        \<lparr>side = side ls, up = - forward ls, forward = up ls, position = position ls + times_Vec3 (up ls) (0.5 * h)\<rparr> sfd)
        vehicle p)"
    by (rule par) (simp add: od dot_uminus_right)
  have perp4: "\<not> intersect (findIntersectionWithVehiclePath sfd fresh
        (RectangleObstacle w d
        \<lparr>side = - side ls, up = - forward ls, forward = - up ls, position = position ls - times_Vec3 (up ls) (0.5 * h)\<rparr> sfd)
        vehicle p)"
    by (rule par) (simp add: od dot_uminus_right)
  show ?thesis
  proof (intro ballI impI)
    fix x
    assume x: "x \<in> set (BoxObstacle_faces sfd w h d ls)"
      and ne: "x \<noteq> RectangleObstacle w h
        \<lparr>side = - side ls, up = up ls, forward = - forward ls, position = position ls - times_Vec3 (forward ls) (0.5 * d)\<rparr> sfd"
      and i: "intersect (findIntersectionWithVehiclePath sfd fresh x vehicle p)"
    from x have "x = RectangleObstacle w h
        \<lparr>side = side ls, up = up ls, forward = forward ls, position = position ls + times_Vec3 (forward ls) (0.5 * d)\<rparr> sfd
        \<or> x = RectangleObstacle w h
        \<lparr>side = - side ls, up = up ls, forward = - forward ls, position = position ls - times_Vec3 (forward ls) (0.5 * d)\<rparr> sfd
        \<or> x = RectangleObstacle d h
        \<lparr>side = - forward ls, up = up ls, forward = side ls, position = position ls + times_Vec3 (side ls) (0.5 * w)\<rparr> sfd
        \<or> x = RectangleObstacle d h
        \<lparr>side = forward ls, up = up ls, forward = - side ls, position = position ls - times_Vec3 (side ls) (0.5 * w)\<rparr> sfd
        \<or> x = RectangleObstacle w d
        \<lparr>side = side ls, up = - forward ls, forward = up ls, position = position ls + times_Vec3 (up ls) (0.5 * h)\<rparr> sfd
        \<or> x = RectangleObstacle w d
        \<lparr>side = - side ls, up = - forward ls, forward = - up ls, position = position ls - times_Vec3 (up ls) (0.5 * h)\<rparr> sfd"
      unfolding BoxObstacle_faces_def Let_def
      by (simp only: list.set insert_iff empty_iff simp_thms)
    then show "intersect (findIntersectionWithVehiclePath sfd fresh
               (RectangleObstacle w h
        \<lparr>side = - side ls, up = up ls, forward = - forward ls, position = position ls - times_Vec3 (forward ls) (0.5 * d)\<rparr> sfd)
               vehicle p)
             \<and> distance (findIntersectionWithVehiclePath sfd fresh
               (RectangleObstacle w h
        \<lparr>side = - side ls, up = up ls, forward = - forward ls, position = position ls - times_Vec3 (forward ls) (0.5 * d)\<rparr> sfd)
               vehicle p)
                 < distance (findIntersectionWithVehiclePath sfd fresh x vehicle p)"
    proof (elim disjE)
      assume e: "x = RectangleObstacle w h
        \<lparr>side = side ls, up = up ls, forward = forward ls, position = position ls + times_Vec3 (forward ls) (0.5 * d)\<rparr> sfd"
      from opp i [unfolded e] show ?thesis unfolding e by (rule mp)
    next
      assume e: "x = RectangleObstacle w h
        \<lparr>side = - side ls, up = up ls, forward = - forward ls, position = position ls - times_Vec3 (forward ls) (0.5 * d)\<rparr> sfd"
      from ne e show ?thesis by (rule notE)
    next
      assume e: "x = RectangleObstacle d h
        \<lparr>side = - forward ls, up = up ls, forward = side ls, position = position ls + times_Vec3 (side ls) (0.5 * w)\<rparr> sfd"
      from perp1 i [unfolded e] show ?thesis by (rule notE)
    next
      assume e: "x = RectangleObstacle d h
        \<lparr>side = forward ls, up = up ls, forward = - side ls, position = position ls - times_Vec3 (side ls) (0.5 * w)\<rparr> sfd"
      from perp2 i [unfolded e] show ?thesis by (rule notE)
    next
      assume e: "x = RectangleObstacle w d
        \<lparr>side = side ls, up = - forward ls, forward = up ls, position = position ls + times_Vec3 (up ls) (0.5 * h)\<rparr> sfd"
      from perp3 i [unfolded e] show ?thesis by (rule notE)
    next
      assume e: "x = RectangleObstacle w d
        \<lparr>side = - side ls, up = - forward ls, forward = - up ls, position = position ls - times_Vec3 (up ls) (0.5 * h)\<rparr> sfd"
      from perp4 i [unfolded e] show ?thesis by (rule notE)
    qed
  qed
qed

lemma BoxObstacle_right_face:
  assumes o: "orthonormal ls" and d: "0 < w" and t: "sfd \<noteq> inside"
    and fwd: "forward vehicle = - side ls"
    and front: "0 < vz (localizePosition
        \<lparr>side = - forward ls, up = up ls, forward = side ls, position = position ls + times_Vec3 (side ls) (0.5 * w)\<rparr>
        (position vehicle))"
  shows "\<forall>x \<in> set (BoxObstacle_faces sfd w h d ls).
           x \<noteq> RectangleObstacle d h
        \<lparr>side = - forward ls, up = up ls, forward = side ls, position = position ls + times_Vec3 (side ls) (0.5 * w)\<rparr> sfd \<longrightarrow>
           intersect (findIntersectionWithVehiclePath sfd fresh x vehicle p) \<longrightarrow>
             intersect (findIntersectionWithVehiclePath sfd fresh
               (RectangleObstacle d h
        \<lparr>side = - forward ls, up = up ls, forward = side ls, position = position ls + times_Vec3 (side ls) (0.5 * w)\<rparr> sfd)
               vehicle p)
             \<and> distance (findIntersectionWithVehiclePath sfd fresh
               (RectangleObstacle d h
        \<lparr>side = - forward ls, up = up ls, forward = side ls, position = position ls + times_Vec3 (side ls) (0.5 * w)\<rparr> sfd)
               vehicle p)
                 < distance (findIntersectionWithVehiclePath sfd fresh x vehicle p)"
proof -
  note od = orthonormal_dots [OF o]
  let ?k = "\<lparr>side = - forward ls, up = up ls, forward = side ls, position = position ls + times_Vec3 (side ls) (0.5 * w)\<rparr>"
  let ?o = "\<lparr>side = forward ls, up = up ls, forward = - side ls, position = position ls - times_Vec3 (side ls) (0.5 * w)\<rparr>"
  have ldk: "localizeDirection ?k (forward vehicle) = Vec3 0 0 (- 1)"
    by (simp add: localizeDirection_def fwd dot_uminus_left dot_uminus_right od)
  have ldo: "localizeDirection ?o (forward vehicle) = Vec3 0 0 1"
    by (simp add: localizeDirection_def fwd dot_uminus_left dot_uminus_right od)
  have lpo: "localizePosition ?o (position vehicle) =
      Vec3 (- vx (localizePosition ?k (position vehicle)))
           (vy (localizePosition ?k (position vehicle)))
           (- vz (localizePosition ?k (position vehicle)) - w)"
    by (simp add: localizePosition_def localizeDirection_def dot_minus_plus dot_minus_minus
        dot_times_Vec3 dot_uminus_right od)
  have par: "\<not> intersect (findIntersectionWithVehiclePath sfd fresh
      (RectangleObstacle a b \<lparr>side = x, up = y, forward = z, position = q\<rparr> sfd) vehicle p)"
    if "dot (side ls) z = 0" for a b x y z q
  proof -
    from that have "dot (forward vehicle) z = 0" by (simp add: fwd dot_uminus_left)
    then have "RectangleObstacle_misses a b \<lparr>side = x, up = y, forward = z, position = q\<rparr>
        sfd vehicle"
      by (intro RectangleObstacle_parallel) simp
    then show ?thesis by (simp add: RectangleObstacle_intersect_iff)
  qed
  have opp: "intersect (findIntersectionWithVehiclePath sfd fresh
        (RectangleObstacle d h
        \<lparr>side = forward ls, up = up ls, forward = - side ls, position = position ls - times_Vec3 (side ls) (0.5 * w)\<rparr> sfd)
        vehicle p) \<longrightarrow>
      intersect (findIntersectionWithVehiclePath sfd fresh
        (RectangleObstacle d h
        \<lparr>side = - forward ls, up = up ls, forward = side ls, position = position ls + times_Vec3 (side ls) (0.5 * w)\<rparr> sfd)
        vehicle p)
      \<and> distance (findIntersectionWithVehiclePath sfd fresh
        (RectangleObstacle d h
        \<lparr>side = - forward ls, up = up ls, forward = side ls, position = position ls + times_Vec3 (side ls) (0.5 * w)\<rparr> sfd)
        vehicle p)
        < distance (findIntersectionWithVehiclePath sfd fresh
        (RectangleObstacle d h
        \<lparr>side = forward ls, up = up ls, forward = - side ls, position = position ls - times_Vec3 (side ls) (0.5 * w)\<rparr> sfd)
        vehicle p)"
    using opposite_face [OF ldk ldo lpo d front t, of d h p p]
    by (simp add: RectangleObstacle_intersect_iff)
  have perp1: "\<not> intersect (findIntersectionWithVehiclePath sfd fresh
        (RectangleObstacle w h
        \<lparr>side = side ls, up = up ls, forward = forward ls, position = position ls + times_Vec3 (forward ls) (0.5 * d)\<rparr> sfd)
        vehicle p)"
    by (rule par) (simp add: od dot_uminus_right)
  have perp2: "\<not> intersect (findIntersectionWithVehiclePath sfd fresh
        (RectangleObstacle w h
        \<lparr>side = - side ls, up = up ls, forward = - forward ls, position = position ls - times_Vec3 (forward ls) (0.5 * d)\<rparr> sfd)
        vehicle p)"
    by (rule par) (simp add: od dot_uminus_right)
  have perp3: "\<not> intersect (findIntersectionWithVehiclePath sfd fresh
        (RectangleObstacle w d
        \<lparr>side = side ls, up = - forward ls, forward = up ls, position = position ls + times_Vec3 (up ls) (0.5 * h)\<rparr> sfd)
        vehicle p)"
    by (rule par) (simp add: od dot_uminus_right)
  have perp4: "\<not> intersect (findIntersectionWithVehiclePath sfd fresh
        (RectangleObstacle w d
        \<lparr>side = - side ls, up = - forward ls, forward = - up ls, position = position ls - times_Vec3 (up ls) (0.5 * h)\<rparr> sfd)
        vehicle p)"
    by (rule par) (simp add: od dot_uminus_right)
  show ?thesis
  proof (intro ballI impI)
    fix x
    assume x: "x \<in> set (BoxObstacle_faces sfd w h d ls)"
      and ne: "x \<noteq> RectangleObstacle d h
        \<lparr>side = - forward ls, up = up ls, forward = side ls, position = position ls + times_Vec3 (side ls) (0.5 * w)\<rparr> sfd"
      and i: "intersect (findIntersectionWithVehiclePath sfd fresh x vehicle p)"
    from x have "x = RectangleObstacle w h
        \<lparr>side = side ls, up = up ls, forward = forward ls, position = position ls + times_Vec3 (forward ls) (0.5 * d)\<rparr> sfd
        \<or> x = RectangleObstacle w h
        \<lparr>side = - side ls, up = up ls, forward = - forward ls, position = position ls - times_Vec3 (forward ls) (0.5 * d)\<rparr> sfd
        \<or> x = RectangleObstacle d h
        \<lparr>side = - forward ls, up = up ls, forward = side ls, position = position ls + times_Vec3 (side ls) (0.5 * w)\<rparr> sfd
        \<or> x = RectangleObstacle d h
        \<lparr>side = forward ls, up = up ls, forward = - side ls, position = position ls - times_Vec3 (side ls) (0.5 * w)\<rparr> sfd
        \<or> x = RectangleObstacle w d
        \<lparr>side = side ls, up = - forward ls, forward = up ls, position = position ls + times_Vec3 (up ls) (0.5 * h)\<rparr> sfd
        \<or> x = RectangleObstacle w d
        \<lparr>side = - side ls, up = - forward ls, forward = - up ls, position = position ls - times_Vec3 (up ls) (0.5 * h)\<rparr> sfd"
      unfolding BoxObstacle_faces_def Let_def
      by (simp only: list.set insert_iff empty_iff simp_thms)
    then show "intersect (findIntersectionWithVehiclePath sfd fresh
               (RectangleObstacle d h
        \<lparr>side = - forward ls, up = up ls, forward = side ls, position = position ls + times_Vec3 (side ls) (0.5 * w)\<rparr> sfd)
               vehicle p)
             \<and> distance (findIntersectionWithVehiclePath sfd fresh
               (RectangleObstacle d h
        \<lparr>side = - forward ls, up = up ls, forward = side ls, position = position ls + times_Vec3 (side ls) (0.5 * w)\<rparr> sfd)
               vehicle p)
                 < distance (findIntersectionWithVehiclePath sfd fresh x vehicle p)"
    proof (elim disjE)
      assume e: "x = RectangleObstacle w h
        \<lparr>side = side ls, up = up ls, forward = forward ls, position = position ls + times_Vec3 (forward ls) (0.5 * d)\<rparr> sfd"
      from perp1 i [unfolded e] show ?thesis by (rule notE)
    next
      assume e: "x = RectangleObstacle w h
        \<lparr>side = - side ls, up = up ls, forward = - forward ls, position = position ls - times_Vec3 (forward ls) (0.5 * d)\<rparr> sfd"
      from perp2 i [unfolded e] show ?thesis by (rule notE)
    next
      assume e: "x = RectangleObstacle d h
        \<lparr>side = - forward ls, up = up ls, forward = side ls, position = position ls + times_Vec3 (side ls) (0.5 * w)\<rparr> sfd"
      from ne e show ?thesis by (rule notE)
    next
      assume e: "x = RectangleObstacle d h
        \<lparr>side = forward ls, up = up ls, forward = - side ls, position = position ls - times_Vec3 (side ls) (0.5 * w)\<rparr> sfd"
      from opp i [unfolded e] show ?thesis unfolding e by (rule mp)
    next
      assume e: "x = RectangleObstacle w d
        \<lparr>side = side ls, up = - forward ls, forward = up ls, position = position ls + times_Vec3 (up ls) (0.5 * h)\<rparr> sfd"
      from perp3 i [unfolded e] show ?thesis by (rule notE)
    next
      assume e: "x = RectangleObstacle w d
        \<lparr>side = - side ls, up = - forward ls, forward = - up ls, position = position ls - times_Vec3 (up ls) (0.5 * h)\<rparr> sfd"
      from perp4 i [unfolded e] show ?thesis by (rule notE)
    qed
  qed
qed

lemma BoxObstacle_left_face:
  assumes o: "orthonormal ls" and d: "0 < w" and t: "sfd \<noteq> inside"
    and fwd: "forward vehicle = side ls"
    and front: "0 < vz (localizePosition
        \<lparr>side = forward ls, up = up ls, forward = - side ls, position = position ls - times_Vec3 (side ls) (0.5 * w)\<rparr>
        (position vehicle))"
  shows "\<forall>x \<in> set (BoxObstacle_faces sfd w h d ls).
           x \<noteq> RectangleObstacle d h
        \<lparr>side = forward ls, up = up ls, forward = - side ls, position = position ls - times_Vec3 (side ls) (0.5 * w)\<rparr> sfd \<longrightarrow>
           intersect (findIntersectionWithVehiclePath sfd fresh x vehicle p) \<longrightarrow>
             intersect (findIntersectionWithVehiclePath sfd fresh
               (RectangleObstacle d h
        \<lparr>side = forward ls, up = up ls, forward = - side ls, position = position ls - times_Vec3 (side ls) (0.5 * w)\<rparr> sfd)
               vehicle p)
             \<and> distance (findIntersectionWithVehiclePath sfd fresh
               (RectangleObstacle d h
        \<lparr>side = forward ls, up = up ls, forward = - side ls, position = position ls - times_Vec3 (side ls) (0.5 * w)\<rparr> sfd)
               vehicle p)
                 < distance (findIntersectionWithVehiclePath sfd fresh x vehicle p)"
proof -
  note od = orthonormal_dots [OF o]
  let ?k = "\<lparr>side = forward ls, up = up ls, forward = - side ls, position = position ls - times_Vec3 (side ls) (0.5 * w)\<rparr>"
  let ?o = "\<lparr>side = - forward ls, up = up ls, forward = side ls, position = position ls + times_Vec3 (side ls) (0.5 * w)\<rparr>"
  have ldk: "localizeDirection ?k (forward vehicle) = Vec3 0 0 (- 1)"
    by (simp add: localizeDirection_def fwd dot_uminus_left dot_uminus_right od)
  have ldo: "localizeDirection ?o (forward vehicle) = Vec3 0 0 1"
    by (simp add: localizeDirection_def fwd dot_uminus_left dot_uminus_right od)
  have lpo: "localizePosition ?o (position vehicle) =
      Vec3 (- vx (localizePosition ?k (position vehicle)))
           (vy (localizePosition ?k (position vehicle)))
           (- vz (localizePosition ?k (position vehicle)) - w)"
    by (simp add: localizePosition_def localizeDirection_def dot_minus_plus dot_minus_minus
        dot_times_Vec3 dot_uminus_right od)
  have par: "\<not> intersect (findIntersectionWithVehiclePath sfd fresh
      (RectangleObstacle a b \<lparr>side = x, up = y, forward = z, position = q\<rparr> sfd) vehicle p)"
    if "dot (side ls) z = 0" for a b x y z q
  proof -
    from that have "dot (forward vehicle) z = 0" by (simp add: fwd dot_uminus_left)
    then have "RectangleObstacle_misses a b \<lparr>side = x, up = y, forward = z, position = q\<rparr>
        sfd vehicle"
      by (intro RectangleObstacle_parallel) simp
    then show ?thesis by (simp add: RectangleObstacle_intersect_iff)
  qed
  have opp: "intersect (findIntersectionWithVehiclePath sfd fresh
        (RectangleObstacle d h
        \<lparr>side = - forward ls, up = up ls, forward = side ls, position = position ls + times_Vec3 (side ls) (0.5 * w)\<rparr> sfd)
        vehicle p) \<longrightarrow>
      intersect (findIntersectionWithVehiclePath sfd fresh
        (RectangleObstacle d h
        \<lparr>side = forward ls, up = up ls, forward = - side ls, position = position ls - times_Vec3 (side ls) (0.5 * w)\<rparr> sfd)
        vehicle p)
      \<and> distance (findIntersectionWithVehiclePath sfd fresh
        (RectangleObstacle d h
        \<lparr>side = forward ls, up = up ls, forward = - side ls, position = position ls - times_Vec3 (side ls) (0.5 * w)\<rparr> sfd)
        vehicle p)
        < distance (findIntersectionWithVehiclePath sfd fresh
        (RectangleObstacle d h
        \<lparr>side = - forward ls, up = up ls, forward = side ls, position = position ls + times_Vec3 (side ls) (0.5 * w)\<rparr> sfd)
        vehicle p)"
    using opposite_face [OF ldk ldo lpo d front t, of d h p p]
    by (simp add: RectangleObstacle_intersect_iff)
  have perp1: "\<not> intersect (findIntersectionWithVehiclePath sfd fresh
        (RectangleObstacle w h
        \<lparr>side = side ls, up = up ls, forward = forward ls, position = position ls + times_Vec3 (forward ls) (0.5 * d)\<rparr> sfd)
        vehicle p)"
    by (rule par) (simp add: od dot_uminus_right)
  have perp2: "\<not> intersect (findIntersectionWithVehiclePath sfd fresh
        (RectangleObstacle w h
        \<lparr>side = - side ls, up = up ls, forward = - forward ls, position = position ls - times_Vec3 (forward ls) (0.5 * d)\<rparr> sfd)
        vehicle p)"
    by (rule par) (simp add: od dot_uminus_right)
  have perp3: "\<not> intersect (findIntersectionWithVehiclePath sfd fresh
        (RectangleObstacle w d
        \<lparr>side = side ls, up = - forward ls, forward = up ls, position = position ls + times_Vec3 (up ls) (0.5 * h)\<rparr> sfd)
        vehicle p)"
    by (rule par) (simp add: od dot_uminus_right)
  have perp4: "\<not> intersect (findIntersectionWithVehiclePath sfd fresh
        (RectangleObstacle w d
        \<lparr>side = - side ls, up = - forward ls, forward = - up ls, position = position ls - times_Vec3 (up ls) (0.5 * h)\<rparr> sfd)
        vehicle p)"
    by (rule par) (simp add: od dot_uminus_right)
  show ?thesis
  proof (intro ballI impI)
    fix x
    assume x: "x \<in> set (BoxObstacle_faces sfd w h d ls)"
      and ne: "x \<noteq> RectangleObstacle d h
        \<lparr>side = forward ls, up = up ls, forward = - side ls, position = position ls - times_Vec3 (side ls) (0.5 * w)\<rparr> sfd"
      and i: "intersect (findIntersectionWithVehiclePath sfd fresh x vehicle p)"
    from x have "x = RectangleObstacle w h
        \<lparr>side = side ls, up = up ls, forward = forward ls, position = position ls + times_Vec3 (forward ls) (0.5 * d)\<rparr> sfd
        \<or> x = RectangleObstacle w h
        \<lparr>side = - side ls, up = up ls, forward = - forward ls, position = position ls - times_Vec3 (forward ls) (0.5 * d)\<rparr> sfd
        \<or> x = RectangleObstacle d h
        \<lparr>side = - forward ls, up = up ls, forward = side ls, position = position ls + times_Vec3 (side ls) (0.5 * w)\<rparr> sfd
        \<or> x = RectangleObstacle d h
        \<lparr>side = forward ls, up = up ls, forward = - side ls, position = position ls - times_Vec3 (side ls) (0.5 * w)\<rparr> sfd
        \<or> x = RectangleObstacle w d
        \<lparr>side = side ls, up = - forward ls, forward = up ls, position = position ls + times_Vec3 (up ls) (0.5 * h)\<rparr> sfd
        \<or> x = RectangleObstacle w d
        \<lparr>side = - side ls, up = - forward ls, forward = - up ls, position = position ls - times_Vec3 (up ls) (0.5 * h)\<rparr> sfd"
      unfolding BoxObstacle_faces_def Let_def
      by (simp only: list.set insert_iff empty_iff simp_thms)
    then show "intersect (findIntersectionWithVehiclePath sfd fresh
               (RectangleObstacle d h
        \<lparr>side = forward ls, up = up ls, forward = - side ls, position = position ls - times_Vec3 (side ls) (0.5 * w)\<rparr> sfd)
               vehicle p)
             \<and> distance (findIntersectionWithVehiclePath sfd fresh
               (RectangleObstacle d h
        \<lparr>side = forward ls, up = up ls, forward = - side ls, position = position ls - times_Vec3 (side ls) (0.5 * w)\<rparr> sfd)
               vehicle p)
                 < distance (findIntersectionWithVehiclePath sfd fresh x vehicle p)"
    proof (elim disjE)
      assume e: "x = RectangleObstacle w h
        \<lparr>side = side ls, up = up ls, forward = forward ls, position = position ls + times_Vec3 (forward ls) (0.5 * d)\<rparr> sfd"
      from perp1 i [unfolded e] show ?thesis by (rule notE)
    next
      assume e: "x = RectangleObstacle w h
        \<lparr>side = - side ls, up = up ls, forward = - forward ls, position = position ls - times_Vec3 (forward ls) (0.5 * d)\<rparr> sfd"
      from perp2 i [unfolded e] show ?thesis by (rule notE)
    next
      assume e: "x = RectangleObstacle d h
        \<lparr>side = - forward ls, up = up ls, forward = side ls, position = position ls + times_Vec3 (side ls) (0.5 * w)\<rparr> sfd"
      from opp i [unfolded e] show ?thesis unfolding e by (rule mp)
    next
      assume e: "x = RectangleObstacle d h
        \<lparr>side = forward ls, up = up ls, forward = - side ls, position = position ls - times_Vec3 (side ls) (0.5 * w)\<rparr> sfd"
      from ne e show ?thesis by (rule notE)
    next
      assume e: "x = RectangleObstacle w d
        \<lparr>side = side ls, up = - forward ls, forward = up ls, position = position ls + times_Vec3 (up ls) (0.5 * h)\<rparr> sfd"
      from perp3 i [unfolded e] show ?thesis by (rule notE)
    next
      assume e: "x = RectangleObstacle w d
        \<lparr>side = - side ls, up = - forward ls, forward = - up ls, position = position ls - times_Vec3 (up ls) (0.5 * h)\<rparr> sfd"
      from perp4 i [unfolded e] show ?thesis by (rule notE)
    qed
  qed
qed

lemma BoxObstacle_top_face:
  assumes o: "orthonormal ls" and d: "0 < h" and t: "sfd \<noteq> inside"
    and fwd: "forward vehicle = - up ls"
    and front: "0 < vz (localizePosition
        \<lparr>side = side ls, up = - forward ls, forward = up ls, position = position ls + times_Vec3 (up ls) (0.5 * h)\<rparr>
        (position vehicle))"
  shows "\<forall>x \<in> set (BoxObstacle_faces sfd w h d ls).
           x \<noteq> RectangleObstacle w d
        \<lparr>side = side ls, up = - forward ls, forward = up ls, position = position ls + times_Vec3 (up ls) (0.5 * h)\<rparr> sfd \<longrightarrow>
           intersect (findIntersectionWithVehiclePath sfd fresh x vehicle p) \<longrightarrow>
             intersect (findIntersectionWithVehiclePath sfd fresh
               (RectangleObstacle w d
        \<lparr>side = side ls, up = - forward ls, forward = up ls, position = position ls + times_Vec3 (up ls) (0.5 * h)\<rparr> sfd)
               vehicle p)
             \<and> distance (findIntersectionWithVehiclePath sfd fresh
               (RectangleObstacle w d
        \<lparr>side = side ls, up = - forward ls, forward = up ls, position = position ls + times_Vec3 (up ls) (0.5 * h)\<rparr> sfd)
               vehicle p)
                 < distance (findIntersectionWithVehiclePath sfd fresh x vehicle p)"
proof -
  note od = orthonormal_dots [OF o]
  let ?k = "\<lparr>side = side ls, up = - forward ls, forward = up ls, position = position ls + times_Vec3 (up ls) (0.5 * h)\<rparr>"
  let ?o = "\<lparr>side = - side ls, up = - forward ls, forward = - up ls, position = position ls - times_Vec3 (up ls) (0.5 * h)\<rparr>"
  have ldk: "localizeDirection ?k (forward vehicle) = Vec3 0 0 (- 1)"
    by (simp add: localizeDirection_def fwd dot_uminus_left dot_uminus_right od)
  have ldo: "localizeDirection ?o (forward vehicle) = Vec3 0 0 1"
    by (simp add: localizeDirection_def fwd dot_uminus_left dot_uminus_right od)
  have lpo: "localizePosition ?o (position vehicle) =
      Vec3 (- vx (localizePosition ?k (position vehicle)))
           (vy (localizePosition ?k (position vehicle)))
           (- vz (localizePosition ?k (position vehicle)) - h)"
    by (simp add: localizePosition_def localizeDirection_def dot_minus_plus dot_minus_minus
        dot_times_Vec3 dot_uminus_right od)
  have par: "\<not> intersect (findIntersectionWithVehiclePath sfd fresh
      (RectangleObstacle a b \<lparr>side = x, up = y, forward = z, position = q\<rparr> sfd) vehicle p)"
    if "dot (up ls) z = 0" for a b x y z q
  proof -
    from that have "dot (forward vehicle) z = 0" by (simp add: fwd dot_uminus_left)
    then have "RectangleObstacle_misses a b \<lparr>side = x, up = y, forward = z, position = q\<rparr>
        sfd vehicle"
      by (intro RectangleObstacle_parallel) simp
    then show ?thesis by (simp add: RectangleObstacle_intersect_iff)
  qed
  have opp: "intersect (findIntersectionWithVehiclePath sfd fresh
        (RectangleObstacle w d
        \<lparr>side = - side ls, up = - forward ls, forward = - up ls, position = position ls - times_Vec3 (up ls) (0.5 * h)\<rparr> sfd)
        vehicle p) \<longrightarrow>
      intersect (findIntersectionWithVehiclePath sfd fresh
        (RectangleObstacle w d
        \<lparr>side = side ls, up = - forward ls, forward = up ls, position = position ls + times_Vec3 (up ls) (0.5 * h)\<rparr> sfd)
        vehicle p)
      \<and> distance (findIntersectionWithVehiclePath sfd fresh
        (RectangleObstacle w d
        \<lparr>side = side ls, up = - forward ls, forward = up ls, position = position ls + times_Vec3 (up ls) (0.5 * h)\<rparr> sfd)
        vehicle p)
        < distance (findIntersectionWithVehiclePath sfd fresh
        (RectangleObstacle w d
        \<lparr>side = - side ls, up = - forward ls, forward = - up ls, position = position ls - times_Vec3 (up ls) (0.5 * h)\<rparr> sfd)
        vehicle p)"
    using opposite_face [OF ldk ldo lpo d front t, of w d p p]
    by (simp add: RectangleObstacle_intersect_iff)
  have perp1: "\<not> intersect (findIntersectionWithVehiclePath sfd fresh
        (RectangleObstacle w h
        \<lparr>side = side ls, up = up ls, forward = forward ls, position = position ls + times_Vec3 (forward ls) (0.5 * d)\<rparr> sfd)
        vehicle p)"
    by (rule par) (simp add: od dot_uminus_right)
  have perp2: "\<not> intersect (findIntersectionWithVehiclePath sfd fresh
        (RectangleObstacle w h
        \<lparr>side = - side ls, up = up ls, forward = - forward ls, position = position ls - times_Vec3 (forward ls) (0.5 * d)\<rparr> sfd)
        vehicle p)"
    by (rule par) (simp add: od dot_uminus_right)
  have perp3: "\<not> intersect (findIntersectionWithVehiclePath sfd fresh
        (RectangleObstacle d h
        \<lparr>side = - forward ls, up = up ls, forward = side ls, position = position ls + times_Vec3 (side ls) (0.5 * w)\<rparr> sfd)
        vehicle p)"
    by (rule par) (simp add: od dot_uminus_right)
  have perp4: "\<not> intersect (findIntersectionWithVehiclePath sfd fresh
        (RectangleObstacle d h
        \<lparr>side = forward ls, up = up ls, forward = - side ls, position = position ls - times_Vec3 (side ls) (0.5 * w)\<rparr> sfd)
        vehicle p)"
    by (rule par) (simp add: od dot_uminus_right)
  show ?thesis
  proof (intro ballI impI)
    fix x
    assume x: "x \<in> set (BoxObstacle_faces sfd w h d ls)"
      and ne: "x \<noteq> RectangleObstacle w d
        \<lparr>side = side ls, up = - forward ls, forward = up ls, position = position ls + times_Vec3 (up ls) (0.5 * h)\<rparr> sfd"
      and i: "intersect (findIntersectionWithVehiclePath sfd fresh x vehicle p)"
    from x have "x = RectangleObstacle w h
        \<lparr>side = side ls, up = up ls, forward = forward ls, position = position ls + times_Vec3 (forward ls) (0.5 * d)\<rparr> sfd
        \<or> x = RectangleObstacle w h
        \<lparr>side = - side ls, up = up ls, forward = - forward ls, position = position ls - times_Vec3 (forward ls) (0.5 * d)\<rparr> sfd
        \<or> x = RectangleObstacle d h
        \<lparr>side = - forward ls, up = up ls, forward = side ls, position = position ls + times_Vec3 (side ls) (0.5 * w)\<rparr> sfd
        \<or> x = RectangleObstacle d h
        \<lparr>side = forward ls, up = up ls, forward = - side ls, position = position ls - times_Vec3 (side ls) (0.5 * w)\<rparr> sfd
        \<or> x = RectangleObstacle w d
        \<lparr>side = side ls, up = - forward ls, forward = up ls, position = position ls + times_Vec3 (up ls) (0.5 * h)\<rparr> sfd
        \<or> x = RectangleObstacle w d
        \<lparr>side = - side ls, up = - forward ls, forward = - up ls, position = position ls - times_Vec3 (up ls) (0.5 * h)\<rparr> sfd"
      unfolding BoxObstacle_faces_def Let_def
      by (simp only: list.set insert_iff empty_iff simp_thms)
    then show "intersect (findIntersectionWithVehiclePath sfd fresh
               (RectangleObstacle w d
        \<lparr>side = side ls, up = - forward ls, forward = up ls, position = position ls + times_Vec3 (up ls) (0.5 * h)\<rparr> sfd)
               vehicle p)
             \<and> distance (findIntersectionWithVehiclePath sfd fresh
               (RectangleObstacle w d
        \<lparr>side = side ls, up = - forward ls, forward = up ls, position = position ls + times_Vec3 (up ls) (0.5 * h)\<rparr> sfd)
               vehicle p)
                 < distance (findIntersectionWithVehiclePath sfd fresh x vehicle p)"
    proof (elim disjE)
      assume e: "x = RectangleObstacle w h
        \<lparr>side = side ls, up = up ls, forward = forward ls, position = position ls + times_Vec3 (forward ls) (0.5 * d)\<rparr> sfd"
      from perp1 i [unfolded e] show ?thesis by (rule notE)
    next
      assume e: "x = RectangleObstacle w h
        \<lparr>side = - side ls, up = up ls, forward = - forward ls, position = position ls - times_Vec3 (forward ls) (0.5 * d)\<rparr> sfd"
      from perp2 i [unfolded e] show ?thesis by (rule notE)
    next
      assume e: "x = RectangleObstacle d h
        \<lparr>side = - forward ls, up = up ls, forward = side ls, position = position ls + times_Vec3 (side ls) (0.5 * w)\<rparr> sfd"
      from perp3 i [unfolded e] show ?thesis by (rule notE)
    next
      assume e: "x = RectangleObstacle d h
        \<lparr>side = forward ls, up = up ls, forward = - side ls, position = position ls - times_Vec3 (side ls) (0.5 * w)\<rparr> sfd"
      from perp4 i [unfolded e] show ?thesis by (rule notE)
    next
      assume e: "x = RectangleObstacle w d
        \<lparr>side = side ls, up = - forward ls, forward = up ls, position = position ls + times_Vec3 (up ls) (0.5 * h)\<rparr> sfd"
      from ne e show ?thesis by (rule notE)
    next
      assume e: "x = RectangleObstacle w d
        \<lparr>side = - side ls, up = - forward ls, forward = - up ls, position = position ls - times_Vec3 (up ls) (0.5 * h)\<rparr> sfd"
      from opp i [unfolded e] show ?thesis unfolding e by (rule mp)
    qed
  qed
qed

lemma BoxObstacle_bottom_face:
  assumes o: "orthonormal ls" and d: "0 < h" and t: "sfd \<noteq> inside"
    and fwd: "forward vehicle = up ls"
    and front: "0 < vz (localizePosition
        \<lparr>side = - side ls, up = - forward ls, forward = - up ls, position = position ls - times_Vec3 (up ls) (0.5 * h)\<rparr>
        (position vehicle))"
  shows "\<forall>x \<in> set (BoxObstacle_faces sfd w h d ls).
           x \<noteq> RectangleObstacle w d
        \<lparr>side = - side ls, up = - forward ls, forward = - up ls, position = position ls - times_Vec3 (up ls) (0.5 * h)\<rparr> sfd \<longrightarrow>
           intersect (findIntersectionWithVehiclePath sfd fresh x vehicle p) \<longrightarrow>
             intersect (findIntersectionWithVehiclePath sfd fresh
               (RectangleObstacle w d
        \<lparr>side = - side ls, up = - forward ls, forward = - up ls, position = position ls - times_Vec3 (up ls) (0.5 * h)\<rparr> sfd)
               vehicle p)
             \<and> distance (findIntersectionWithVehiclePath sfd fresh
               (RectangleObstacle w d
        \<lparr>side = - side ls, up = - forward ls, forward = - up ls, position = position ls - times_Vec3 (up ls) (0.5 * h)\<rparr> sfd)
               vehicle p)
                 < distance (findIntersectionWithVehiclePath sfd fresh x vehicle p)"
proof -
  note od = orthonormal_dots [OF o]
  let ?k = "\<lparr>side = - side ls, up = - forward ls, forward = - up ls, position = position ls - times_Vec3 (up ls) (0.5 * h)\<rparr>"
  let ?o = "\<lparr>side = side ls, up = - forward ls, forward = up ls, position = position ls + times_Vec3 (up ls) (0.5 * h)\<rparr>"
  have ldk: "localizeDirection ?k (forward vehicle) = Vec3 0 0 (- 1)"
    by (simp add: localizeDirection_def fwd dot_uminus_left dot_uminus_right od)
  have ldo: "localizeDirection ?o (forward vehicle) = Vec3 0 0 1"
    by (simp add: localizeDirection_def fwd dot_uminus_left dot_uminus_right od)
  have lpo: "localizePosition ?o (position vehicle) =
      Vec3 (- vx (localizePosition ?k (position vehicle)))
           (vy (localizePosition ?k (position vehicle)))
           (- vz (localizePosition ?k (position vehicle)) - h)"
    by (simp add: localizePosition_def localizeDirection_def dot_minus_plus dot_minus_minus
        dot_times_Vec3 dot_uminus_right od)
  have par: "\<not> intersect (findIntersectionWithVehiclePath sfd fresh
      (RectangleObstacle a b \<lparr>side = x, up = y, forward = z, position = q\<rparr> sfd) vehicle p)"
    if "dot (up ls) z = 0" for a b x y z q
  proof -
    from that have "dot (forward vehicle) z = 0" by (simp add: fwd dot_uminus_left)
    then have "RectangleObstacle_misses a b \<lparr>side = x, up = y, forward = z, position = q\<rparr>
        sfd vehicle"
      by (intro RectangleObstacle_parallel) simp
    then show ?thesis by (simp add: RectangleObstacle_intersect_iff)
  qed
  have opp: "intersect (findIntersectionWithVehiclePath sfd fresh
        (RectangleObstacle w d
        \<lparr>side = side ls, up = - forward ls, forward = up ls, position = position ls + times_Vec3 (up ls) (0.5 * h)\<rparr> sfd)
        vehicle p) \<longrightarrow>
      intersect (findIntersectionWithVehiclePath sfd fresh
        (RectangleObstacle w d
        \<lparr>side = - side ls, up = - forward ls, forward = - up ls, position = position ls - times_Vec3 (up ls) (0.5 * h)\<rparr> sfd)
        vehicle p)
      \<and> distance (findIntersectionWithVehiclePath sfd fresh
        (RectangleObstacle w d
        \<lparr>side = - side ls, up = - forward ls, forward = - up ls, position = position ls - times_Vec3 (up ls) (0.5 * h)\<rparr> sfd)
        vehicle p)
        < distance (findIntersectionWithVehiclePath sfd fresh
        (RectangleObstacle w d
        \<lparr>side = side ls, up = - forward ls, forward = up ls, position = position ls + times_Vec3 (up ls) (0.5 * h)\<rparr> sfd)
        vehicle p)"
    using opposite_face [OF ldk ldo lpo d front t, of w d p p]
    by (simp add: RectangleObstacle_intersect_iff)
  have perp1: "\<not> intersect (findIntersectionWithVehiclePath sfd fresh
        (RectangleObstacle w h
        \<lparr>side = side ls, up = up ls, forward = forward ls, position = position ls + times_Vec3 (forward ls) (0.5 * d)\<rparr> sfd)
        vehicle p)"
    by (rule par) (simp add: od dot_uminus_right)
  have perp2: "\<not> intersect (findIntersectionWithVehiclePath sfd fresh
        (RectangleObstacle w h
        \<lparr>side = - side ls, up = up ls, forward = - forward ls, position = position ls - times_Vec3 (forward ls) (0.5 * d)\<rparr> sfd)
        vehicle p)"
    by (rule par) (simp add: od dot_uminus_right)
  have perp3: "\<not> intersect (findIntersectionWithVehiclePath sfd fresh
        (RectangleObstacle d h
        \<lparr>side = - forward ls, up = up ls, forward = side ls, position = position ls + times_Vec3 (side ls) (0.5 * w)\<rparr> sfd)
        vehicle p)"
    by (rule par) (simp add: od dot_uminus_right)
  have perp4: "\<not> intersect (findIntersectionWithVehiclePath sfd fresh
        (RectangleObstacle d h
        \<lparr>side = forward ls, up = up ls, forward = - side ls, position = position ls - times_Vec3 (side ls) (0.5 * w)\<rparr> sfd)
        vehicle p)"
    by (rule par) (simp add: od dot_uminus_right)
  show ?thesis
  proof (intro ballI impI)
    fix x
    assume x: "x \<in> set (BoxObstacle_faces sfd w h d ls)"
      and ne: "x \<noteq> RectangleObstacle w d
        \<lparr>side = - side ls, up = - forward ls, forward = - up ls, position = position ls - times_Vec3 (up ls) (0.5 * h)\<rparr> sfd"
      and i: "intersect (findIntersectionWithVehiclePath sfd fresh x vehicle p)"
    from x have "x = RectangleObstacle w h
        \<lparr>side = side ls, up = up ls, forward = forward ls, position = position ls + times_Vec3 (forward ls) (0.5 * d)\<rparr> sfd
        \<or> x = RectangleObstacle w h
        \<lparr>side = - side ls, up = up ls, forward = - forward ls, position = position ls - times_Vec3 (forward ls) (0.5 * d)\<rparr> sfd
        \<or> x = RectangleObstacle d h
        \<lparr>side = - forward ls, up = up ls, forward = side ls, position = position ls + times_Vec3 (side ls) (0.5 * w)\<rparr> sfd
        \<or> x = RectangleObstacle d h
        \<lparr>side = forward ls, up = up ls, forward = - side ls, position = position ls - times_Vec3 (side ls) (0.5 * w)\<rparr> sfd
        \<or> x = RectangleObstacle w d
        \<lparr>side = side ls, up = - forward ls, forward = up ls, position = position ls + times_Vec3 (up ls) (0.5 * h)\<rparr> sfd
        \<or> x = RectangleObstacle w d
        \<lparr>side = - side ls, up = - forward ls, forward = - up ls, position = position ls - times_Vec3 (up ls) (0.5 * h)\<rparr> sfd"
      unfolding BoxObstacle_faces_def Let_def
      by (simp only: list.set insert_iff empty_iff simp_thms)
    then show "intersect (findIntersectionWithVehiclePath sfd fresh
               (RectangleObstacle w d
        \<lparr>side = - side ls, up = - forward ls, forward = - up ls, position = position ls - times_Vec3 (up ls) (0.5 * h)\<rparr> sfd)
               vehicle p)
             \<and> distance (findIntersectionWithVehiclePath sfd fresh
               (RectangleObstacle w d
        \<lparr>side = - side ls, up = - forward ls, forward = - up ls, position = position ls - times_Vec3 (up ls) (0.5 * h)\<rparr> sfd)
               vehicle p)
                 < distance (findIntersectionWithVehiclePath sfd fresh x vehicle p)"
    proof (elim disjE)
      assume e: "x = RectangleObstacle w h
        \<lparr>side = side ls, up = up ls, forward = forward ls, position = position ls + times_Vec3 (forward ls) (0.5 * d)\<rparr> sfd"
      from perp1 i [unfolded e] show ?thesis by (rule notE)
    next
      assume e: "x = RectangleObstacle w h
        \<lparr>side = - side ls, up = up ls, forward = - forward ls, position = position ls - times_Vec3 (forward ls) (0.5 * d)\<rparr> sfd"
      from perp2 i [unfolded e] show ?thesis by (rule notE)
    next
      assume e: "x = RectangleObstacle d h
        \<lparr>side = - forward ls, up = up ls, forward = side ls, position = position ls + times_Vec3 (side ls) (0.5 * w)\<rparr> sfd"
      from perp3 i [unfolded e] show ?thesis by (rule notE)
    next
      assume e: "x = RectangleObstacle d h
        \<lparr>side = forward ls, up = up ls, forward = - side ls, position = position ls - times_Vec3 (side ls) (0.5 * w)\<rparr> sfd"
      from perp4 i [unfolded e] show ?thesis by (rule notE)
    next
      assume e: "x = RectangleObstacle w d
        \<lparr>side = side ls, up = - forward ls, forward = up ls, position = position ls + times_Vec3 (up ls) (0.5 * h)\<rparr> sfd"
      from opp i [unfolded e] show ?thesis unfolding e by (rule mp)
    next
      assume e: "x = RectangleObstacle w d
        \<lparr>side = - side ls, up = - forward ls, forward = - up ls, position = position ls - times_Vec3 (up ls) (0.5 * h)\<rparr> sfd"
      from ne e show ?thesis by (rule notE)
    qed
  qed
qed

lemma BoxObstacle_faces_member:
  "RectangleObstacle fw fh fls sfd \<in> set (BoxObstacle_faces sfd w h d ls) \<longleftrightarrow>
     (fw = w \<and> fh = h \<and> fls = \<lparr>side = side ls, up = up ls, forward = forward ls,
        position = position ls + times_Vec3 (forward ls) (0.5 * d)\<rparr>
     \<or> fw = w \<and> fh = h \<and> fls = \<lparr>side = - side ls, up = up ls, forward = - forward ls,
        position = position ls - times_Vec3 (forward ls) (0.5 * d)\<rparr>
     \<or> fw = d \<and> fh = h \<and> fls = \<lparr>side = - forward ls, up = up ls, forward = side ls,
        position = position ls + times_Vec3 (side ls) (0.5 * w)\<rparr>
     \<or> fw = d \<and> fh = h \<and> fls = \<lparr>side = forward ls, up = up ls, forward = - side ls,
        position = position ls - times_Vec3 (side ls) (0.5 * w)\<rparr>
     \<or> fw = w \<and> fh = d \<and> fls = \<lparr>side = side ls, up = - forward ls, forward = up ls,
        position = position ls + times_Vec3 (up ls) (0.5 * h)\<rparr>
     \<or> fw = w \<and> fh = d \<and> fls = \<lparr>side = - side ls, up = - forward ls, forward = - up ls,
        position = position ls - times_Vec3 (up ls) (0.5 * h)\<rparr>)"
  unfolding BoxObstacle_faces_def Let_def
  by (simp only: list.set insert_iff empty_iff simp_thms Obstacle.inject)

lemma BoxObstacle_candidate:
  assumes o: "orthonormal ls" and w: "0 < w" and h: "0 < h" and d: "0 < d"
    and t: "sfd \<noteq> inside"
    and face: "RectangleObstacle fw fh fls sfd \<in> set (BoxObstacle_faces sfd w h d ls)"
    and aimed: "forward vehicle = - forward fls"
    and front: "0 < vz (localizePosition fls (position vehicle))"
  shows "\<forall>x \<in> set (BoxObstacle_faces sfd w h d ls).
           x \<noteq> RectangleObstacle fw fh fls sfd \<longrightarrow>
           intersect (findIntersectionWithVehiclePath sfd fresh x vehicle p) \<longrightarrow>
             intersect (findIntersectionWithVehiclePath sfd fresh
               (RectangleObstacle fw fh fls sfd) vehicle p)
             \<and> distance (findIntersectionWithVehiclePath sfd fresh
               (RectangleObstacle fw fh fls sfd) vehicle p)
                 < distance (findIntersectionWithVehiclePath sfd fresh x vehicle p)"
proof -
  from face have
    "fw = w \<and> fh = h \<and> fls = \<lparr>side = side ls, up = up ls, forward = forward ls,
        position = position ls + times_Vec3 (forward ls) (0.5 * d)\<rparr>
     \<or> fw = w \<and> fh = h \<and> fls = \<lparr>side = - side ls, up = up ls, forward = - forward ls,
        position = position ls - times_Vec3 (forward ls) (0.5 * d)\<rparr>
     \<or> fw = d \<and> fh = h \<and> fls = \<lparr>side = - forward ls, up = up ls, forward = side ls,
        position = position ls + times_Vec3 (side ls) (0.5 * w)\<rparr>
     \<or> fw = d \<and> fh = h \<and> fls = \<lparr>side = forward ls, up = up ls, forward = - side ls,
        position = position ls - times_Vec3 (side ls) (0.5 * w)\<rparr>
     \<or> fw = w \<and> fh = d \<and> fls = \<lparr>side = side ls, up = - forward ls, forward = up ls,
        position = position ls + times_Vec3 (up ls) (0.5 * h)\<rparr>
     \<or> fw = w \<and> fh = d \<and> fls = \<lparr>side = - side ls, up = - forward ls, forward = - up ls,
        position = position ls - times_Vec3 (up ls) (0.5 * h)\<rparr>"
    unfolding BoxObstacle_faces_def Let_def
    by (simp only: list.set insert_iff empty_iff simp_thms Obstacle.inject)
  then show ?thesis
  proof (elim disjE conjE)
    assume e: "fw = w" "fh = h" "fls = \<lparr>side = side ls, up = up ls, forward = forward ls,
        position = position ls + times_Vec3 (forward ls) (0.5 * d)\<rparr>"
    from aimed have fwd: "forward vehicle = - forward ls" unfolding e by simp
    from BoxObstacle_front_face [OF o d t fwd front [unfolded e]]
    show ?thesis unfolding e .
  next
    assume e: "fw = w" "fh = h" "fls = \<lparr>side = - side ls, up = up ls, forward = - forward ls,
        position = position ls - times_Vec3 (forward ls) (0.5 * d)\<rparr>"
    from aimed have fwd: "forward vehicle = forward ls"
      unfolding e by (simp add: uminus_uminus_Vec3)
    from BoxObstacle_back_face [OF o d t fwd front [unfolded e]]
    show ?thesis unfolding e .
  next
    assume e: "fw = d" "fh = h" "fls = \<lparr>side = - forward ls, up = up ls, forward = side ls,
        position = position ls + times_Vec3 (side ls) (0.5 * w)\<rparr>"
    from aimed have fwd: "forward vehicle = - side ls" unfolding e by simp
    from BoxObstacle_right_face [OF o w t fwd front [unfolded e]]
    show ?thesis unfolding e .
  next
    assume e: "fw = d" "fh = h" "fls = \<lparr>side = forward ls, up = up ls, forward = - side ls,
        position = position ls - times_Vec3 (side ls) (0.5 * w)\<rparr>"
    from aimed have fwd: "forward vehicle = side ls"
      unfolding e by (simp add: uminus_uminus_Vec3)
    from BoxObstacle_left_face [OF o w t fwd front [unfolded e]]
    show ?thesis unfolding e .
  next
    assume e: "fw = w" "fh = d" "fls = \<lparr>side = side ls, up = - forward ls, forward = up ls,
        position = position ls + times_Vec3 (up ls) (0.5 * h)\<rparr>"
    from aimed have fwd: "forward vehicle = - up ls" unfolding e by simp
    from BoxObstacle_top_face [OF o h t fwd front [unfolded e]]
    show ?thesis unfolding e .
  next
    assume e: "fw = w" "fh = d" "fls = \<lparr>side = - side ls, up = - forward ls, forward = - up ls,
        position = position ls - times_Vec3 (up ls) (0.5 * h)\<rparr>"
    from aimed have fwd: "forward vehicle = up ls"
      unfolding e by (simp add: uminus_uminus_Vec3)
    from BoxObstacle_bottom_face [OF o h t fwd front [unfolded e]]
    show ?thesis unfolding e .
  qed
qed

text \<open>
  C8. Take a box with an orthonormal frame (side \<open>s\<close>, up \<open>u\<close>, forward \<open>f\<close>, position
  \<open>p\<close>) and positive width \<open>w\<close>, height \<open>h\<close> and depth \<open>d\<close>, whose faces are built
  with a tag other than \<open>inside\<close>. Its six faces are the rectangles
  \<^item> front: \<open>w\<close> by \<open>h\<close>, axes \<open>s\<close>, \<open>u\<close>, normal \<open>f\<close>, centered at \<open>p + f * (d / 2)\<close>;
  \<^item> back: \<open>w\<close> by \<open>h\<close>, axes \<open>- s\<close>, \<open>u\<close>, normal \<open>- f\<close>, centered at \<open>p - f * (d / 2)\<close>;
  \<^item> one side: \<open>d\<close> by \<open>h\<close>, axes \<open>- f\<close>, \<open>u\<close>, normal \<open>s\<close>, centered at \<open>p + s * (w / 2)\<close>;
  \<^item> other side: \<open>d\<close> by \<open>h\<close>, axes \<open>f\<close>, \<open>u\<close>, normal \<open>- s\<close>, centered at \<open>p - s * (w / 2)\<close>;
  \<^item> top: \<open>w\<close> by \<open>d\<close>, axes \<open>s\<close>, \<open>- f\<close>, normal \<open>u\<close>, centered at \<open>p + u * (h / 2)\<close>;
  \<^item> bottom: \<open>w\<close> by \<open>d\<close>, axes \<open>- s\<close>, \<open>- f\<close>, normal \<open>- u\<close>, centered at
    \<open>p - u * (h / 2)\<close>.

  A vehicle is aimed squarely at one of them when it heads against the face's normal
  and stands in front of the face's plane. The box's query and the query of a
  standalone rectangle with that face's dimensions, axes and center (and any tag other
  than \<open>inside\<close>) then report the same intersect flag, and when they report an
  intersection the same distance, surface point, surface normal and steering hint.
\<close>

theorem BoxObstacle_face:
  assumes "orthonormal ls" and "0 < w" and "0 < h" and "0 < d"
    and "sfd \<noteq> inside" and "sf' \<noteq> inside"
    and "fw = w \<and> fh = h \<and> fls = \<lparr>side = side ls, up = up ls, forward = forward ls,
        position = position ls + times_Vec3 (forward ls) (0.5 * d)\<rparr>
     \<or> fw = w \<and> fh = h \<and> fls = \<lparr>side = - side ls, up = up ls, forward = - forward ls,
        position = position ls - times_Vec3 (forward ls) (0.5 * d)\<rparr>
     \<or> fw = d \<and> fh = h \<and> fls = \<lparr>side = - forward ls, up = up ls, forward = side ls,
        position = position ls + times_Vec3 (side ls) (0.5 * w)\<rparr>
     \<or> fw = d \<and> fh = h \<and> fls = \<lparr>side = forward ls, up = up ls, forward = - side ls,
        position = position ls - times_Vec3 (side ls) (0.5 * w)\<rparr>
     \<or> fw = w \<and> fh = d \<and> fls = \<lparr>side = side ls, up = - forward ls, forward = up ls,
        position = position ls + times_Vec3 (up ls) (0.5 * h)\<rparr>
     \<or> fw = w \<and> fh = d \<and> fls = \<lparr>side = - side ls, up = - forward ls, forward = - up ls,
        position = position ls - times_Vec3 (up ls) (0.5 * h)\<rparr>"
    and "forward vehicle = - forward fls"
    and "0 < vz (localizePosition fls (position vehicle))"
  shows "(intersect (findIntersectionWithVehiclePath sfd fresh (BoxObstacle w h d ls sf) vehicle prev)
          \<longleftrightarrow> intersect (RectangleObstacle_findIntersectionWithVehiclePath fw fh fls sf' vehicle prev'))
       \<and> (intersect (RectangleObstacle_findIntersectionWithVehiclePath fw fh fls sf' vehicle prev') \<longrightarrow>
            distance (findIntersectionWithVehiclePath sfd fresh (BoxObstacle w h d ls sf) vehicle prev)
              = distance (RectangleObstacle_findIntersectionWithVehiclePath fw fh fls sf' vehicle prev')
          \<and> surfacePoint (findIntersectionWithVehiclePath sfd fresh (BoxObstacle w h d ls sf) vehicle prev)
              = surfacePoint (RectangleObstacle_findIntersectionWithVehiclePath fw fh fls sf' vehicle prev')
          \<and> surfaceNormal (findIntersectionWithVehiclePath sfd fresh (BoxObstacle w h d ls sf) vehicle prev)
              = surfaceNormal (RectangleObstacle_findIntersectionWithVehiclePath fw fh fls sf' vehicle prev')
          \<and> steerHint (findIntersectionWithVehiclePath sfd fresh (BoxObstacle w h d ls sf) vehicle prev)
              = steerHint (RectangleObstacle_findIntersectionWithVehiclePath fw fh fls sf' vehicle prev'))"
proof -
  let ?box = "findIntersectionWithVehiclePath sfd fresh (BoxObstacle w h d ls sf) vehicle prev"
  let ?face = "RectangleObstacle_findIntersectionWithVehiclePath fw fh fls sfd vehicle prev'"
  let ?rect = "RectangleObstacle_findIntersectionWithVehiclePath fw fh fls sf' vehicle prev'"
  have n: "\<not> intersect (prev\<lparr>intersect := False\<rparr>)" by simp
  from assms(7) have m: "RectangleObstacle fw fh fls sfd \<in> set (BoxObstacle_faces sfd w h d ls)"
    by (simp only: BoxObstacle_faces_member)
  note cand = BoxObstacle_candidate [OF assms(1-5) m assms(8-9), of fresh prev']
  from scanObstacles_single_candidate [OF n m cand]
  have same: "sameResult ?box ?face" by simp
  have m: "RectangleObstacle_misses fw fh fls sfd vehicle
             = RectangleObstacle_misses fw fh fls sf' vehicle"
    using assms(9) assms(5) assms(6) by (rule RectangleObstacle_misses_tag)
  have flag: "intersect ?face \<longleftrightarrow> intersect ?rect"
    by (simp add: RectangleObstacle_intersect_iff m)
  have fields: "distance ?face = distance ?rect \<and> surfacePoint ?face = surfacePoint ?rect
      \<and> surfaceNormal ?face = surfaceNormal ?rect \<and> steerHint ?face = steerHint ?rect"
    if "intersect ?rect"
  proof -
    from that have "\<not> RectangleObstacle_misses fw fh fls sf' vehicle"
      by (simp add: RectangleObstacle_intersect_iff)
    moreover with m have "\<not> RectangleObstacle_misses fw fh fls sfd vehicle" by simp
    ultimately show ?thesis by (simp add: RectangleObstacle_hit Let_def)
  qed
  show ?thesis
  proof (cases "intersect ?rect")
    case True
    with flag have f: "intersect ?face" by simp
    with same have "?box = ?face" unfolding sameResult_def by blast
    with True f fields show ?thesis by simp
  next
    case False
    with flag have "\<not> intersect ?face" by simp
    with same have "\<not> intersect ?box" unfolding sameResult_def by metis
    with False show ?thesis by simp
  qed
qed

theorem BoxObstacle_face_witness:
  "intersect (findIntersectionWithVehiclePath outside noHit
       (BoxObstacle 2 2 2 unitBox both) (vehicleZ 1 0 1) noHit)
   \<and> distance (findIntersectionWithVehiclePath outside noHit
       (BoxObstacle 2 2 2 unitBox both) (vehicleZ 1 0 1) noHit) = 9"
proof -
  have o: "orthonormal unitBox" by (simp add: orthonormal_def unitBox_def dot_def)
  have t: "outside \<noteq> inside" by simp
  have p: "(0::real) < 2" by simp
  have b: "unitBoxBack = \<lparr>side = - side unitBox, up = up unitBox, forward = - forward unitBox,
        position = position unitBox - times_Vec3 (forward unitBox) (0.5 * 2)\<rparr>"
    by (simp add: unitBox_def unitBoxBack_def Vec3_ops)
  have m: "(2::real) = 2 \<and> (2::real) = 2 \<and> unitBoxBack = \<lparr>side = side unitBox, up = up unitBox,
        forward = forward unitBox,
        position = position unitBox + times_Vec3 (forward unitBox) (0.5 * 2)\<rparr>
     \<or> (2::real) = 2 \<and> (2::real) = 2 \<and> unitBoxBack = \<lparr>side = - side unitBox, up = up unitBox,
        forward = - forward unitBox,
        position = position unitBox - times_Vec3 (forward unitBox) (0.5 * 2)\<rparr>
     \<or> (2::real) = 2 \<and> (2::real) = 2 \<and> unitBoxBack = \<lparr>side = - forward unitBox, up = up unitBox,
        forward = side unitBox,
        position = position unitBox + times_Vec3 (side unitBox) (0.5 * 2)\<rparr>
     \<or> (2::real) = 2 \<and> (2::real) = 2 \<and> unitBoxBack = \<lparr>side = forward unitBox, up = up unitBox,
        forward = - side unitBox,
        position = position unitBox - times_Vec3 (side unitBox) (0.5 * 2)\<rparr>
     \<or> (2::real) = 2 \<and> (2::real) = 2 \<and> unitBoxBack = \<lparr>side = side unitBox, up = - forward unitBox,
        forward = up unitBox,
        position = position unitBox + times_Vec3 (up unitBox) (0.5 * 2)\<rparr>
     \<or> (2::real) = 2 \<and> (2::real) = 2 \<and> unitBoxBack = \<lparr>side = - side unitBox, up = - forward unitBox,
        forward = - up unitBox,
        position = position unitBox - times_Vec3 (up unitBox) (0.5 * 2)\<rparr>"
    using b by blast
  have a: "forward (vehicleZ 1 0 1) = - forward unitBoxBack"
    by (simp add: vehicleZ_def unitBoxBack_def Vec3_ops)
  have lp: "localizePosition unitBoxBack (position (vehicleZ 1 0 1)) = Vec3 0 0 9"
    by (simp add: localizePosition_def localizeDirection_def vehicleZ_def unitBoxBack_def Vec3_ops)
  have ld: "localizeDirection unitBoxBack (forward (vehicleZ 1 0 1)) = Vec3 0 0 (- 1)"
    by (simp add: localizeDirection_def vehicleZ_def unitBoxBack_def Vec3_ops)
  have f: "0 < vz (localizePosition unitBoxBack (position (vehicleZ 1 0 1)))"
    by (simp add: lp)
  have r: "radius (vehicleZ 1 0 1) = 0" by (simp add: vehicleZ_def)
  have n1: "(- 1::real) \<noteq> 0" by simp
  have hit: "\<not> RectangleObstacle_misses 2 2 unitBoxBack outside (vehicleZ 1 0 1)"
    unfolding RectangleObstacle_axis_misses [OF ld n1] Let_def lp Vec3.sel r by simp
  then have i: "intersect (RectangleObstacle_findIntersectionWithVehiclePath 2 2 unitBoxBack outside
      (vehicleZ 1 0 1) noHit)"
    by (simp add: RectangleObstacle_intersect_iff)
  have d: "distance (RectangleObstacle_findIntersectionWithVehiclePath 2 2 unitBoxBack outside
      (vehicleZ 1 0 1) noHit) = 9"
    unfolding RectangleObstacle_axis_distance [OF ld hit] lp by simp
  from BoxObstacle_face [OF o p p p t t m a f, of noHit both noHit noHit] i d
  show ?thesis by simp
qed

text \<open>
  C10. The result of the box's query does not depend on the box's own \<^verbatim>\<open>seenFrom\<close>
  tag: two boxes that differ in nothing but the tag give the same result for every
  vehicle.
\<close>

theorem BoxObstacle_seenFrom_irrelevant:
  "findIntersectionWithVehiclePath sfd fresh (BoxObstacle w h d ls sfA) vehicle prev =
   findIntersectionWithVehiclePath sfd fresh (BoxObstacle w h d ls sfB) vehicle prev"
  by simp

section \<open>Surface normals\<close>

text \<open>
  C9 (as the code has it). Whenever the query of a shape reports an intersection, the
  surface normal it writes is a unit vector, provided that: for a sphere, the surface
  point is not the center of the sphere; for a rectangle, its forward axis is a unit
  vector; for a box, its three axes are unit vectors.
\<close>

theorem surfaceNormal_unit:
  assumes "intersect (findIntersectionWithVehiclePath sfd fresh ob vehicle prev)"
    and "unitNormalShape ob (findIntersectionWithVehiclePath sfd fresh ob vehicle prev)"
  shows "length_Vec3 (surfaceNormal (findIntersectionWithVehiclePath sfd fresh ob vehicle prev)) = 1"
proof (cases ob)
  case (SphericalObstacle r c sf)
  let ?res = "SphericalObstacle_findIntersectionWithVehiclePath r c sf vehicle prev"
  from assms SphericalObstacle have i: "intersect ?res" and ne: "surfacePoint ?res \<noteq> c"
    by (simp_all add: unitNormalShape_def)
  from i have "\<not> SphericalObstacle_misses r c vehicle"
    by (simp add: SphericalObstacle_intersect_iff)
  then have "surfaceNormal ?res = normalize_Vec3 (surfacePoint ?res - c)"
    by (simp add: SphericalObstacle_hit Let_def)
  moreover from ne have "surfacePoint ?res - c \<noteq> 0" by (simp add: minus_Vec3_eq_0)
  ultimately show ?thesis using SphericalObstacle by (simp add: length_normalize_Vec3)
next
  case (RectangleObstacle w h ls sf)
  with assms show ?thesis
    by (simp add: unitNormalShape_def RectangleObstacle_surfaceNormal)
next
  case (BoxObstacle w h d ls sf)
  with assms have u: "length_Vec3 (side ls) = 1" "length_Vec3 (up ls) = 1"
      "length_Vec3 (forward ls) = 1"
    by (simp_all add: unitNormalShape_def)
  from assms(1) BoxObstacle BoxObstacle_report [of sfd fresh w h d ls sf vehicle prev prev]
  obtain face where f: "face \<in> set (BoxObstacle_faces sfd w h d ls)"
    and r: "findIntersectionWithVehiclePath sfd fresh ob vehicle prev
              = findIntersectionWithVehiclePath sfd fresh face vehicle prev"
    and i: "intersect (findIntersectionWithVehiclePath sfd fresh face vehicle prev)"
    by auto
  from f u i show ?thesis unfolding r
    by (auto simp add: BoxObstacle_faces_def Let_def RectangleObstacle_surfaceNormal
        length_uminus_Vec3)
qed

text \<open>
  C9 as stated fails for a vehicle that stands at the center of a sphere seen from
  outside: the distance is 0, the surface point is the center, and the normal is the
  zero vector.
\<close>

theorem surfaceNormal_unit_counterexample:
  "intersect (findIntersectionWithVehiclePath outside noHit
       (SphericalObstacle 1 (Vec3 0 0 0) outside) (vehicleZ 1 0 1) noHit)
   \<and> length_Vec3 (surfaceNormal (findIntersectionWithVehiclePath outside noHit
       (SphericalObstacle 1 (Vec3 0 0 0) outside) (vehicleZ 1 0 1) noHit)) \<noteq> 1"
proof -
  have lc: "localizePosition (vehicleZ 1 0 1) (Vec3 0 0 0) = Vec3 0 0 0"
    by (simp add: localizePosition_def localizeDirection_def vehicleZ_def Vec3_ops)
  have r: "radius (vehicleZ 1 0 1) = 0" by (simp add: vehicleZ_def)
  have c: "SphericalObstacle_c (vehicleZ 1 0 1) 1 (Vec3 0 0 0) = - 1"
    by (simp add: SphericalObstacle_c_def lc square_def r)
  have s: "sqrtXXX 4 = 2" by (simp add: sqrtXXX_def)
  have p: "SphericalObstacle_p (vehicleZ 1 0 1) 1 (Vec3 0 0 0) = 1"
    unfolding SphericalObstacle_p_def Let_def lc c Vec3.sel by (simp add: s)
  have q: "SphericalObstacle_q (vehicleZ 1 0 1) 1 (Vec3 0 0 0) = - 1"
    unfolding SphericalObstacle_q_def Let_def lc c Vec3.sel by (simp add: s)
  have v: "position (vehicleZ 1 0 1) = Vec3 0 0 0" "forward (vehicleZ 1 0 1) = Vec3 0 0 1"
    by (simp_all add: vehicleZ_def)
  have z: "Vec3 0 0 0 = 0" by (simp add: zero_Vec3_def)
  have l: "length_Vec3 0 = 0" by (simp add: length_Vec3_eq_0)
  show ?thesis
    unfolding findIntersectionWithVehiclePath.simps
      SphericalObstacle_find_roots [of 1 "Vec3 0 0 0" outside "vehicleZ 1 0 1" noHit]
      Let_def lc c p q Vec3.sel v
    by (simp add: Vec3_ops) (simp add: z normalize_Vec3_zero l)
qed

theorem surfaceNormal_unit_witness:
  "length_Vec3 (surfaceNormal (findIntersectionWithVehiclePath outside noHit
       (SphericalObstacle 1 (Vec3 0 0 10) outside) (vehicleZ 1 0 1) noHit)) = 1"
proof -
  let ?res = "findIntersectionWithVehiclePath outside noHit
       (SphericalObstacle 1 (Vec3 0 0 10) outside) (vehicleZ 1 0 1) noHit"
  have i: "intersect ?res" by (simp add: SphericalObstacle_on_axis)
  have u: "unitNormalShape (SphericalObstacle 1 (Vec3 0 0 10) outside) ?res"
    by (simp add: unitNormalShape_def SphericalObstacle_on_axis)
  from surfaceNormal_unit [OF i u] show ?thesis .
qed

end
